theory Spec2Isabelle
  imports Complex_Main
begin

section \<open>The liquid particle background (src/liquid.js)\<close>

text \<open>
  A shallow embedding of the particle simulation of \<^verbatim>\<open>liquid.js\<close>: the palette
  registry, the colour helpers \<^verbatim>\<open>hexToRgb\<close> and \<^verbatim>\<open>lerp\<close>, the class
  \<^verbatim>\<open>Particle\<close>, the frame function \<^verbatim>\<open>animate\<close> and the mood switch
  \<^verbatim>\<open>setMood\<close>.

  Conventions of the embedding.
  \<^item> A JavaScript number is a \<^typ>\<open>real\<close> and arithmetic is read exactly, except in
    \<open>lerp_binary64\<close>, which rounds as IEEE doubles do. NaN and the infinities are outside
    the model.
  \<^item> A JavaScript string is a \<^typ>\<open>string\<close>. Only ASCII characters can match the
    patterns of \<^verbatim>\<open>hexToRgb\<close>, so the encoding of other characters does not matter.
  \<^item> Module-level variables (\<^verbatim>\<open>mouse\<close>, \<^verbatim>\<open>targetMouse\<close>, \<^verbatim>\<open>particles\<close>,
    \<^verbatim>\<open>currentPalette\<close>, \<^verbatim>\<open>width\<close>, \<^verbatim>\<open>height\<close>) are fields of an explicit state.
  \<^item> \<^verbatim>\<open>Math.random()\<close> reads an explicit stream of numbers.
  \<^item> A thrown exception is a value: an operation returns an \<open>outcome\<close>, which holds
    the state reached when the exception left the function.
  \<^item> The fields \<^verbatim>\<open>x\<close>, \<^verbatim>\<open>y\<close>, \<^verbatim>\<open>r\<close>, \<^verbatim>\<open>g\<close>, \<^verbatim>\<open>b\<close> carry a prefix
    (\<open>px\<close>, \<open>mouse_x\<close>, \<open>rgb_r\<close>, ...), since a record field is a constant.
\<close>

subsection \<open>Palette registry\<close>

record palette =
  name :: string
  colors :: "string list"
  bg :: string

definition PALETTES :: "(string \<times> palette) list" where
  "PALETTES =
    [(''joy'',
       \<lparr>name = ''Joy'',
        colors = [''#FFD166'', ''#FFD166'', ''#06D6A0'', ''#118AB2'', ''#EF476F''],
        bg = ''#1a1a00''\<rparr>),
     (''serenity'',
       \<lparr>name = ''Serenity'',
        colors = [''#E0F7FA'', ''#B2EBF2'', ''#80DEEA'', ''#4DD0E1'', ''#26C6DA''],
        bg = ''#001a1a''\<rparr>),
     (''energy'',
       \<lparr>name = ''Energy'',
        colors = [''#FF5733'', ''#C70039'', ''#900C3F'', ''#FFC300'', ''#FF5733''],
        bg = ''#1a0505''\<rparr>),
     (''melancholy'',
       \<lparr>name = ''Melancholy'',
        colors = [''#2B2D42'', ''#8D99AE'', ''#EDF2F4'', ''#EF233C'', ''#D90429''],
        bg = ''#0a0a0f''\<rparr>),
     (''mystery'',
       \<lparr>name = ''Mystery'',
        colors = [''#32004B'', ''#5D008F'', ''#8300D4'', ''#B400FE'', ''#E1ADFF''],
        bg = ''#0f0016''\<rparr>)]"

definition PARTICLE_COUNT :: nat where
  "PARTICLE_COUNT = 150"

subsection \<open>Colour helpers\<close>

definition lerp :: "real \<Rightarrow> real \<Rightarrow> real \<Rightarrow> real" where
  "lerp start end' t = start * (1 - t) + end' * t"

record rgb =
  rgb_r :: real
  rgb_g :: real
  rgb_b :: real

text \<open>The character class \<^verbatim>\<open>[a-f\d]\<close> under the flag \<^verbatim>\<open>i\<close>.\<close>

definition is_hex :: "char \<Rightarrow> bool" where
  "is_hex c = (c \<in> set ''0123456789abcdefABCDEF'')"

definition digit_value :: "char \<Rightarrow> nat" where
  "digit_value c =
     (let n = (of_char c :: nat) in
      if 48 \<le> n \<and> n \<le> 57 then n - 48
      else if 97 \<le> n \<and> n \<le> 102 then n - 87
      else if 65 \<le> n \<and> n \<le> 70 then n - 55
      else 0)"

text \<open>\<^verbatim>\<open>parseInt(s, 16)\<close> on a string of hex digits (the only strings the capture
  groups of \<^verbatim>\<open>hexToRgb\<close> hold).\<close>

definition parseInt16 :: "string \<Rightarrow> nat" where
  "parseInt16 s = foldl (\<lambda>acc c. 16 * acc + digit_value c) 0 s"

text \<open>The prefix \<^verbatim>\<open>^#?\<close> of both patterns: at most one leading \<^verbatim>\<open>#\<close> is skipped.
  What follows must be hex digits up to the end of the input, and \<^verbatim>\<open>#\<close> is not one,
  so the optional \<^verbatim>\<open>#\<close> is taken whenever it is there.\<close>

definition strip_hash :: "string \<Rightarrow> string" where
  "strip_hash s = (if s \<noteq> [] \<and> hd s = CHR ''#'' then tl s else s)"

text \<open>\<^verbatim>\<open>hex.replace(shorthandRegex, (m, r, g, b) => r + r + g + g + b + b)\<close>: the
  pattern is anchored at both ends, so either the whole string is replaced or nothing is.\<close>

definition expand_shorthand :: "string \<Rightarrow> string" where
  "expand_shorthand hex =
     (let body = strip_hash hex in
      if length body = 3 \<and> list_all is_hex body
      then [body ! 0, body ! 0, body ! 1, body ! 1, body ! 2, body ! 2]
      else hex)"

text \<open>The result \<open>None\<close> is \<^verbatim>\<open>null\<close>.\<close>

definition hexToRgb :: "string \<Rightarrow> rgb option" where
  "hexToRgb hex0 =
     (let hex = expand_shorthand hex0;
          body = strip_hash hex in
      if length body = 6 \<and> list_all is_hex body
      then Some \<lparr>rgb_r = real (parseInt16 (take 2 body)),
                 rgb_g = real (parseInt16 (take 2 (drop 2 body))),
                 rgb_b = real (parseInt16 (take 2 (drop 4 body)))\<rparr>
      else None)"

text \<open>The spec's wording of a well-formed colour: exactly 3 or 6 hex digits, with an
  optional leading \<^verbatim>\<open>#\<close>.\<close>

definition hex_digits_3_or_6 :: "string \<Rightarrow> bool" where
  "hex_digits_3_or_6 ds = ((length ds = 3 \<or> length ds = 6) \<and> list_all is_hex ds)"

definition well_formed_hex :: "string \<Rightarrow> bool" where
  "well_formed_hex s =
     (hex_digits_3_or_6 s \<or>
      (case s of [] \<Rightarrow> False | c # ds \<Rightarrow> c = CHR ''#'' \<and> hex_digits_3_or_6 ds))"

subsection \<open>IEEE-754 doubles\<close>

text \<open>
  JavaScript evaluates every arithmetic operation in binary64: the exact result is
  rounded to the nearest number with a significand of 53 bits, ties to the even
  significand. \<open>binary64\<close> is that rounding (with the subnormal numbers below
  \<open>2 ^ - 1022\<close>; the overflow to \<^verbatim>\<open>Infinity\<close> from \<open>2 ^ 1024\<close> on is left out), and
  \<open>lerp_binary64\<close> is the expression of \<^verbatim>\<open>lerp\<close> with each of its four operations
  rounded. It is used for the exact equalities and the order between results of
  \<^verbatim>\<open>lerp\<close>; everywhere else the arithmetic is read exactly.
\<close>

text \<open>The nearest integer, ties to even.\<close>

definition round_ties_even :: "real \<Rightarrow> int" where
  "round_ties_even x =
     (let f = \<lfloor>x\<rfloor>; d = x - of_int f in
      if d < 1 / 2 then f
      else if 1 / 2 < d then f + 1
      else if even f then f else f + 1)"

text \<open>Two to an integer power.\<close>

definition pow2 :: "int \<Rightarrow> real" where
  "pow2 e = (if 0 \<le> e then 2 ^ nat e else 1 / 2 ^ nat (- e))"

text \<open>The rounding of \<open>x\<close> in the binade \<open>2 ^ k \<le> |x| < 2 ^ (k + 1)\<close>, where the doubles are
  the multiples of \<open>2 ^ (k - 52)\<close>.\<close>

definition binary64_at :: "int \<Rightarrow> real \<Rightarrow> real" where
  "binary64_at k x =
     (let e = max (k - 52) (- 1074) in of_int (round_ties_even (x / pow2 e)) * pow2 e)"

definition binary64 :: "real \<Rightarrow> real" where
  "binary64 x = (if x = 0 then 0 else binary64_at \<lfloor>log 2 \<bar>x\<bar>\<rfloor> x)"

definition lerp_binary64 :: "real \<Rightarrow> real \<Rightarrow> real \<Rightarrow> real" where
  "lerp_binary64 start end' t =
     binary64 (binary64 (start * binary64 (1 - t)) + binary64 (end' * t))"

subsection \<open>Property lookup in the registry\<close>

text \<open>
  \<^verbatim>\<open>PALETTES\<close> is an object literal, so \<^verbatim>\<open>PALETTES[moodKey]\<close> finds the object's own
  properties first and then those it inherits from \<^verbatim>\<open>Object.prototype\<close>. The standard
  members of \<^verbatim>\<open>Object.prototype\<close> are functions (and, under \<^verbatim>\<open>__proto__\<close>, the
  prototype object itself): all of them truthy, none of them with a property
  \<^verbatim>\<open>colors\<close> or \<^verbatim>\<open>bg\<close>. The lookup yields \<open>None\<close> for \<^verbatim>\<open>undefined\<close>.
\<close>

definition Object_prototype :: "string list" where
  "Object_prototype =
    [''constructor'', ''hasOwnProperty'', ''isPrototypeOf'', ''propertyIsEnumerable'',
     ''toLocaleString'', ''toString'', ''valueOf'', ''__proto__'',
     ''__defineGetter__'', ''__defineSetter__'', ''__lookupGetter__'', ''__lookupSetter__'']"

datatype entry = Own palette | Inherited

definition PALETTES_get :: "string \<Rightarrow> entry option" where
  "PALETTES_get moodKey =
     (case map_of PALETTES moodKey of
        Some pal \<Rightarrow> Some (Own pal)
      | None \<Rightarrow> if moodKey \<in> set Object_prototype then Some Inherited else None)"

subsection \<open>Exceptions and the random source\<close>

datatype js_error = TypeError

datatype 'a outcome = Returned 'a | Threw js_error 'a

fun state_of :: "'a outcome \<Rightarrow> 'a" where
  "state_of (Returned s) = s"
| "state_of (Threw e s) = s"

type_synonym rng = "nat \<Rightarrow> real"

text \<open>\<^verbatim>\<open>Math.random()\<close>: the next number of the stream, and the rest of the stream.\<close>

definition Math_random :: "rng \<Rightarrow> real \<times> rng" where
  "Math_random g = (g 0, \<lambda>n. g (Suc n))"

text \<open>The contract of \<^verbatim>\<open>Math.random()\<close>: every number lies in \<open>[0, 1)\<close>.\<close>

definition unit_interval :: "rng \<Rightarrow> bool" where
  "unit_interval g = (\<forall>n. 0 \<le> g n \<and> g n < 1)"

subsection \<open>Pointer state and input handlers\<close>

record pointer =
  mouse_x :: real
  mouse_y :: real
  isActive :: bool

record point =
  tm_x :: real
  tm_y :: real

subsection \<open>Particle\<close>

text \<open>
  \<open>targetRgb = None\<close> is the \<^verbatim>\<open>null\<close> that \<^verbatim>\<open>hexToRgb\<close> may return.
  \<open>currentRgb = None\<close> is an object without numeric channels: the clone \<^verbatim>\<open>{...null}\<close>
  made by \<^verbatim>\<open>reset\<close> from a \<^verbatim>\<open>null\<close> target, whose channels read \<^verbatim>\<open>undefined\<close>
  and stay non-numeric under \<^verbatim>\<open>lerp\<close>.
\<close>

record particle =
  px :: real
  py :: real
  vx :: real
  vy :: real
  radius :: real
  baseRadius :: real
  targetRgb :: "rgb option"
  currentRgb :: "rgb option"
  angle :: real
  speed :: real

text \<open>\<^verbatim>\<open>pickColor()\<close>. Reading \<^verbatim>\<open>colors.length\<close> of a value without \<^verbatim>\<open>colors\<close>
  throws, after \<^verbatim>\<open>Math.random()\<close> has been called. An index outside the list reads
  \<^verbatim>\<open>undefined\<close> (\<open>None\<close>).\<close>

definition pickColor :: "entry \<Rightarrow> rng \<Rightarrow> (js_error + string option) \<times> rng" where
  "pickColor currentPalette g =
     (let (u, g') = Math_random g in
      case currentPalette of
        Inherited \<Rightarrow> (Inl TypeError, g')
      | Own pal \<Rightarrow>
          (let i = \<lfloor>u * real (length (colors pal))\<rfloor> in
           (Inr (if 0 \<le> i \<and> i < int (length (colors pal))
                 then Some (colors pal ! nat i) else None), g')))"

text \<open>\<^verbatim>\<open>reset()\<close>, on the object \<open>p\<close>. The fields assigned before the colour is picked
  keep their new values when \<^verbatim>\<open>pickColor\<close> throws, or when \<^verbatim>\<open>hexToRgb(undefined)\<close>
  throws on \<^verbatim>\<open>hex.replace\<close>.\<close>

definition Particle_reset ::
  "real \<Rightarrow> real \<Rightarrow> entry \<Rightarrow> rng \<Rightarrow> particle \<Rightarrow> particle outcome \<times> rng" where
  "Particle_reset width height currentPalette g0 p =
     (let (u1, g1) = Math_random g0;
          (u2, g2) = Math_random g1;
          (u3, g3) = Math_random g2;
          (u4, g4) = Math_random g3;
          (u5, g5) = Math_random g4;
          p1 = p\<lparr>px := u1 * width, py := u2 * height,
                 vx := (u3 - 0.5) * 1.5, vy := (u4 - 0.5) * 1.5,
                 radius := u5 * 50 + 30, baseRadius := u5 * 50 + 30\<rparr>
      in case pickColor currentPalette g5 of
           (Inl e, g6) \<Rightarrow> (Threw e p1, g6)
         | (Inr None, g6) \<Rightarrow> (Threw TypeError p1, g6)
         | (Inr (Some hex), g6) \<Rightarrow>
             (let (u7, g7) = Math_random g6;
                  (u8, g8) = Math_random g7
              in (Returned (p1\<lparr>targetRgb := hexToRgb hex, currentRgb := hexToRgb hex,
                                angle := u7 * pi * 2, speed := u8 * 0.01 + 0.005\<rparr>), g8)))"

text \<open>\<^verbatim>\<open>Math.atan2(y, x)\<close> on real numbers.\<close>

definition Math_atan2 :: "real \<Rightarrow> real \<Rightarrow> real" where
  "Math_atan2 y x =
     (if 0 < x then arctan (y / x)
      else if x < 0 \<and> 0 \<le> y then arctan (y / x) + pi
      else if x < 0 \<and> y < 0 then arctan (y / x) - pi
      else if 0 < y then pi / 2
      else if y < 0 then - (pi / 2)
      else 0)"

text \<open>The body of \<^verbatim>\<open>update()\<close>, section by section.\<close>

definition lerpSpeed :: real where
  "lerpSpeed = 0.05"

text \<open>Colour transition; \<open>t\<close> is the object \<^verbatim>\<open>this.targetRgb\<close>.\<close>

definition ease_colour :: "rgb \<Rightarrow> particle \<Rightarrow> particle" where
  "ease_colour t p =
     p\<lparr>currentRgb :=
         map_option (\<lambda>c. \<lparr>rgb_r = lerp (rgb_r c) (rgb_r t) lerpSpeed,
                           rgb_g = lerp (rgb_g c) (rgb_g t) lerpSpeed,
                           rgb_b = lerp (rgb_b c) (rgb_b t) lerpSpeed\<rparr>) (currentRgb p)\<rparr>"

text \<open>1. Organic float, friction, apply velocity.\<close>

definition organic_float :: "particle \<Rightarrow> particle" where
  "organic_float p =
     (let a = angle p + speed p;
          vx1 = (vx p + cos a * 0.02) * 0.98;
          vy1 = (vy p + sin a * 0.02) * 0.98
      in p\<lparr>angle := a, vx := vx1, vy := vy1, px := px p + vx1, py := py p + vy1\<rparr>)"

text \<open>2. Smooth mouse following: it writes the module-level \<^verbatim>\<open>mouse\<close>.\<close>

definition smooth_mouse :: "point \<Rightarrow> pointer \<Rightarrow> pointer" where
  "smooth_mouse targetMouse mouse =
     mouse\<lparr>mouse_x := mouse_x mouse + (tm_x targetMouse - mouse_x mouse) * 0.1,
            mouse_y := mouse_y mouse + (tm_y targetMouse - mouse_y mouse) * 0.1\<rparr>"

text \<open>The same two statements as evaluated in doubles: each operation is rounded, and
  the literal \<^verbatim>\<open>0.1\<close> is itself a double.\<close>

definition smooth_mouse_binary64 :: "point \<Rightarrow> pointer \<Rightarrow> pointer" where
  "smooth_mouse_binary64 targetMouse mouse =
     mouse\<lparr>mouse_x := binary64 (mouse_x mouse +
               binary64 (binary64 (tm_x targetMouse - mouse_x mouse) * binary64 0.1)),
            mouse_y := binary64 (mouse_y mouse +
               binary64 (binary64 (tm_y targetMouse - mouse_y mouse) * binary64 0.1))\<rparr>"

text \<open>Repulsion, reading the pointer \<open>mouse\<close>.\<close>

definition repel :: "pointer \<Rightarrow> particle \<Rightarrow> particle" where
  "repel mouse p =
     (if isActive mouse then
        (let dx = mouse_x mouse - px p;
             dy = mouse_y mouse - py p;
             distance = sqrt (dx * dx + dy * dy);
             forceRadius = 300
         in if distance < forceRadius then
              (let force = (forceRadius - distance) / forceRadius;
                   a = Math_atan2 dy dx
               in p\<lparr>vx := vx p - cos a * force * 1, vy := vy p - sin a * force * 1\<rparr>)
            else p)
      else p)"

text \<open>Return radius to normal.\<close>

definition relax_radius :: "particle \<Rightarrow> particle" where
  "relax_radius p = p\<lparr>radius := radius p + (baseRadius p - radius p) * 0.05\<rparr>"

text \<open>3. Screen boundaries: four tests in sequence, each on the value the one before
  it left.\<close>

definition wrap :: "real \<Rightarrow> real \<Rightarrow> particle \<Rightarrow> particle" where
  "wrap width height p =
     (let buffer = radius p * 2;
          x1 = (if px p < - buffer then width + buffer else px p);
          x2 = (if x1 > width + buffer then - buffer else x1);
          y1 = (if py p < - buffer then height + buffer else py p);
          y2 = (if y1 > height + buffer then - buffer else y1)
      in p\<lparr>px := x2, py := y2\<rparr>)"

text \<open>\<^verbatim>\<open>update()\<close> reads \<^verbatim>\<open>width\<close>, \<^verbatim>\<open>height\<close> and \<^verbatim>\<open>targetMouse\<close>, and reads and
  writes \<^verbatim>\<open>mouse\<close>. Reading \<^verbatim>\<open>this.targetRgb.r\<close> of a \<^verbatim>\<open>null\<close> target throws in the
  first statement, before anything is written.\<close>

definition Particle_update ::
  "real \<Rightarrow> real \<Rightarrow> point \<Rightarrow> pointer \<Rightarrow> particle \<Rightarrow> js_error + (pointer \<times> particle)" where
  "Particle_update width height targetMouse mouse p =
     (case targetRgb p of
        None \<Rightarrow> Inl TypeError
      | Some t \<Rightarrow>
          (let mouse' = smooth_mouse targetMouse mouse
           in Inr (mouse',
                   wrap width height (relax_radius (repel mouse' (organic_float (ease_colour t p)))))))"

text \<open>\<^verbatim>\<open>draw()\<close>: the disc handed to the drawing surface. \<^verbatim>\<open>Math.round\<close> rounds halves
  up.\<close>

definition Math_round :: "real \<Rightarrow> int" where
  "Math_round v = \<lfloor>v + 1 / 2\<rfloor>"

record disc =
  disc_x :: real
  disc_y :: real
  disc_radius :: real
  disc_colour :: "(int \<times> int \<times> int) option"

definition draw :: "particle \<Rightarrow> disc" where
  "draw p =
     \<lparr>disc_x = px p, disc_y = py p, disc_radius = radius p,
      disc_colour =
        map_option (\<lambda>c. (Math_round (rgb_r c), Math_round (rgb_g c), Math_round (rgb_b c)))
          (currentRgb p)\<rparr>"

subsection \<open>Simulation state\<close>

text \<open>
  The module-level variables, the random source, and what the page shows: the discs on
  the canvas, \<^verbatim>\<open>document.body.style.backgroundColor\<close>, the mood buttons (their
  \<^verbatim>\<open>data-mood\<close> and whether they carry the class \<^verbatim>\<open>active\<close>) and the text of the
  palette swatches (\<open>None\<close> when \<^verbatim>\<open>undefined\<close> was written).
\<close>

record sim =
  width :: real
  height :: real
  particles :: "particle list"
  mouse :: pointer
  targetMouse :: point
  currentPalette :: entry
  rand :: rng
  canvas :: "disc list"
  background :: string
  buttons :: "(string \<times> bool) list"
  swatches :: "string option list"

text \<open>The listeners for \<^verbatim>\<open>resize\<close>, \<^verbatim>\<open>mousemove\<close>, \<^verbatim>\<open>touchstart\<close> and
  \<^verbatim>\<open>touchend\<close>.\<close>

definition resize :: "real \<Rightarrow> real \<Rightarrow> sim \<Rightarrow> sim" where
  "resize innerWidth innerHeight s = s\<lparr>width := innerWidth, height := innerHeight\<rparr>"

definition mousemove :: "real \<Rightarrow> real \<Rightarrow> sim \<Rightarrow> sim" where
  "mousemove clientX clientY s =
     s\<lparr>targetMouse := \<lparr>tm_x = clientX, tm_y = clientY\<rparr>,
       mouse := (mouse s)\<lparr>isActive := True\<rparr>\<rparr>"

definition touchstart :: "real \<Rightarrow> real \<Rightarrow> sim \<Rightarrow> sim" where
  "touchstart clientX clientY s =
     s\<lparr>targetMouse := \<lparr>tm_x = clientX, tm_y = clientY\<rparr>,
       mouse := (mouse s)\<lparr>isActive := True\<rparr>\<rparr>"

definition touchend :: "sim \<Rightarrow> sim" where
  "touchend s = s\<lparr>mouse := (mouse s)\<lparr>isActive := False\<rparr>\<rparr>"

subsection \<open>Particle pool\<close>

text \<open>
  \<^verbatim>\<open>new Particle()\<close> runs \<^verbatim>\<open>reset(true)\<close> on a new object. The object has no field
  yet and \<^verbatim>\<open>reset\<close> reads none before writing it, so the values of \<open>new_object\<close> are never
  read; when \<^verbatim>\<open>reset\<close> throws, no particle is made.
\<close>

definition new_object :: particle where
  "new_object =
     \<lparr>px = 0, py = 0, vx = 0, vy = 0, radius = 0, baseRadius = 0,
      targetRgb = None, currentRgb = None, angle = 0, speed = 0\<rparr>"

definition new_Particle :: "real \<Rightarrow> real \<Rightarrow> entry \<Rightarrow> rng \<Rightarrow> (js_error + particle) \<times> rng" where
  "new_Particle W H cp g =
     (case Particle_reset W H cp g new_object of
        (Returned p, g') \<Rightarrow> (Inr p, g')
      | (Threw e p, g') \<Rightarrow> (Inl e, g'))"

text \<open>The loop of \<^verbatim>\<open>initParticles()\<close>, with \<open>n\<close> particles still to push.\<close>

fun push_particles ::
  "nat \<Rightarrow> real \<Rightarrow> real \<Rightarrow> entry \<Rightarrow> rng \<Rightarrow> particle list
     \<Rightarrow> js_error option \<times> particle list \<times> rng" where
  "push_particles 0 W H cp g ps = (None, ps, g)"
| "push_particles (Suc n) W H cp g ps =
     (case new_Particle W H cp g of
        (Inl e, g') \<Rightarrow> (Some e, ps, g')
      | (Inr p, g') \<Rightarrow> push_particles n W H cp g' (ps @ [p]))"

definition initParticles :: "sim \<Rightarrow> sim outcome" where
  "initParticles s =
     (case push_particles PARTICLE_COUNT (width s) (height s) (currentPalette s) (rand s) [] of
        (err, ps, g) \<Rightarrow>
          (let s' = s\<lparr>particles := ps, rand := g\<rparr>
           in case err of None \<Rightarrow> Returned s' | Some e \<Rightarrow> Threw e s'))"

subsection \<open>Animation loop\<close>

text \<open>
  \<^verbatim>\<open>particles.forEach((p) => { p.update(); p.draw(); })\<close>: the particles in pool
  order, each one updated and then drawn, the pointer handed from one update to the
  next. An exception ends the loop; the particles not reached stay as they were.
\<close>

fun animate_particles ::
  "real \<Rightarrow> real \<Rightarrow> point \<Rightarrow> pointer \<Rightarrow> disc list \<Rightarrow> particle list
     \<Rightarrow> js_error option \<times> pointer \<times> disc list \<times> particle list" where
  "animate_particles W H tm m cv [] = (None, m, cv, [])"
| "animate_particles W H tm m cv (p # ps) =
     (case Particle_update W H tm m p of
        Inl e \<Rightarrow> (Some e, m, cv, p # ps)
      | Inr (m', p') \<Rightarrow>
          (case animate_particles W H tm m' (cv @ [draw p']) ps of
             (e, m'', cv', ps') \<Rightarrow> (e, m'', cv', p' # ps')))"

text \<open>One frame. \<open>Returned\<close> means that \<^verbatim>\<open>requestAnimationFrame(animate)\<close> was
  reached, so another frame follows; an exception ends the loop for good.\<close>

definition animate :: "sim \<Rightarrow> sim outcome" where
  "animate s =
     (case animate_particles (width s) (height s) (targetMouse s) (mouse s) [] (particles s) of
        (err, m, cv, ps) \<Rightarrow>
          (let s' = s\<lparr>mouse := m, canvas := cv, particles := ps\<rparr>
           in case err of None \<Rightarrow> Returned s' | Some e \<Rightarrow> Threw e s'))"

text \<open>The first \<open>n\<close> frames of the perpetual loop, with no input event in between.\<close>

fun frames :: "nat \<Rightarrow> sim \<Rightarrow> sim outcome" where
  "frames 0 s = Returned s"
| "frames (Suc n) s =
     (case animate s of
        Returned s' \<Rightarrow> frames n s'
      | Threw e s' \<Rightarrow> Threw e s')"

text \<open>The smoothed pointer positions that the repulsion steps of one frame read, in
  pool order: \<^verbatim>\<open>update()\<close> reads the pointer it has just written.\<close>

fun pointer_reads :: "real \<Rightarrow> real \<Rightarrow> point \<Rightarrow> pointer \<Rightarrow> particle list \<Rightarrow> pointer list" where
  "pointer_reads W H tm m [] = []"
| "pointer_reads W H tm m (p # ps) =
     (case Particle_update W H tm m p of
        Inl e \<Rightarrow> []
      | Inr (m', p') \<Rightarrow> m' # pointer_reads W H tm m' ps)"

subsection \<open>Mood switch\<close>

text \<open>\<^verbatim>\<open>document.querySelector(`[data-mood="${moodKey}"]`)?.classList.add("active")\<close>:
  the first element with that \<^verbatim>\<open>data-mood\<close>, if there is one.\<close>

fun add_active :: "string \<Rightarrow> (string \<times> bool) list \<Rightarrow> (string \<times> bool) list" where
  "add_active k [] = []"
| "add_active k ((m, a) # bs) = (if m = k then (m, True) # bs else (m, a) # add_active k bs)"

text \<open>\<^verbatim>\<open>particles.forEach((p) => { p.targetRgb = hexToRgb(p.pickColor()); })\<close>.
  \<^verbatim>\<open>hexToRgb(undefined)\<close> throws on \<^verbatim>\<open>hex.replace\<close>.\<close>

fun repick :: "entry \<Rightarrow> rng \<Rightarrow> particle list \<Rightarrow> js_error option \<times> rng \<times> particle list" where
  "repick cp g [] = (None, g, [])"
| "repick cp g (p # ps) =
     (case pickColor cp g of
        (Inl e, g') \<Rightarrow> (Some e, g', p # ps)
      | (Inr None, g') \<Rightarrow> (Some TypeError, g', p # ps)
      | (Inr (Some newHex), g') \<Rightarrow>
          (case repick cp g' ps of
             (e, g'', ps') \<Rightarrow> (e, g'', p\<lparr>targetRgb := hexToRgb newHex\<rparr> # ps')))"

text \<open>The swatch at \<open>index\<close> shows \<^verbatim>\<open>colors[index % colors.length]\<close>.\<close>

definition swatch_colours :: "palette \<Rightarrow> nat \<Rightarrow> string option list" where
  "swatch_colours pal n =
     map (\<lambda>index. if colors pal = [] then None
                   else Some (colors pal ! (index mod length (colors pal)))) [0..<n]"

text \<open>
  \<^verbatim>\<open>setMood(moodKey)\<close>. The guard \<^verbatim>\<open>if (!PALETTES[moodKey]) return\<close> tests the looked-up
  value for truthiness. An inherited value has no \<^verbatim>\<open>bg\<close> (the style ignores the
  assignment of \<^verbatim>\<open>undefined\<close>) and no \<^verbatim>\<open>colors\<close>, so \<^verbatim>\<open>pickColor\<close> throws at the
  first particle, and the swatch loop would at the first swatch.
\<close>

definition setMood :: "string \<Rightarrow> sim \<Rightarrow> sim outcome" where
  "setMood moodKey s =
     (case PALETTES_get moodKey of
        None \<Rightarrow> Returned s
      | Some e \<Rightarrow>
          (let s1 = s\<lparr>currentPalette := e\<rparr>;
               s2 = s1\<lparr>buttons := add_active moodKey (map (\<lambda>(m, a). (m, False)) (buttons s1))\<rparr>;
               s3 = s2\<lparr>background := (case e of Own pal \<Rightarrow> bg pal | Inherited \<Rightarrow> background s2)\<rparr>
           in case repick e (rand s3) (particles s3) of
                (err, g, ps) \<Rightarrow>
                  (let s4 = s3\<lparr>particles := ps, rand := g\<rparr>
                   in case err of
                        Some er \<Rightarrow> Threw er s4
                      | None \<Rightarrow>
                          (case e of
                             Own pal \<Rightarrow>
                               Returned (s4\<lparr>swatches := swatch_colours pal (length (swatches s4))\<rparr>)
                           | Inherited \<Rightarrow>
                               if swatches s4 = [] then Returned s4 else Threw TypeError s4))))"

subsection \<open>The values of \<^verbatim>\<open>currentPalette\<close>\<close>

text \<open>\<^verbatim>\<open>currentPalette\<close> starts as \<^verbatim>\<open>PALETTES.joy\<close> and is only ever assigned a
  truthy \<^verbatim>\<open>PALETTES[moodKey]\<close>: a palette of the registry, or an inherited value.\<close>

definition registry_entry :: "entry \<Rightarrow> bool" where
  "registry_entry cp = (case cp of Inherited \<Rightarrow> True | Own pal \<Rightarrow> pal \<in> snd ` set PALETTES)"

subsection \<open>An example state\<close>

text \<open>A particle whose organic float leaves it where it is (\<open>cos (\<pi> / 2) = 0\<close>, and the
  drift \<open>0.02 * sin (\<pi> / 2)\<close> cancels \<open>vy\<close>), and a state with two such particles, the
  pointer at the origin and the raw target 100 pixels to its right.\<close>

definition example_particle :: particle where
  "example_particle =
     \<lparr>px = 0, py = 0, vx = 0, vy = - (1 / 50), radius = 40, baseRadius = 40,
      targetRgb = Some \<lparr>rgb_r = 255, rgb_g = 209, rgb_b = 102\<rparr>,
      currentRgb = Some \<lparr>rgb_r = 0, rgb_g = 0, rgb_b = 0\<rparr>,
      angle = pi / 2 - 1 / 100, speed = 1 / 100\<rparr>"

definition example_sim :: sim where
  "example_sim =
     \<lparr>width = 800, height = 600,
      particles = [example_particle, example_particle],
      mouse = \<lparr>mouse_x = 0, mouse_y = 0, isActive = True\<rparr>,
      targetMouse = \<lparr>tm_x = 100, tm_y = 0\<rparr>,
      currentPalette = Own (snd (hd PALETTES)),
      rand = (\<lambda>n. 1 / 2),
      canvas = [],
      background = ''#1a1a00'',
      buttons = [(''joy'', True), (''serenity'', False), (''energy'', False),
                 (''melancholy'', False), (''mystery'', False)],
      swatches = [None, None, None, None, None]\<rparr>"

section \<open>Properties\<close>

subsection \<open>Hex colours\<close>

lemma is_hex_not_hash: "is_hex c \<Longrightarrow> c \<noteq> CHR ''#''"
  by (auto simp: is_hex_def)

lemma strip_hash_hex: "list_all is_hex ds \<Longrightarrow> strip_hash ds = ds"
  by (cases ds) (auto simp: strip_hash_def is_hex_not_hash)

lemma strip_hash_Cons_hash: "strip_hash (CHR ''#'' # ds) = ds"
  by (simp add: strip_hash_def)

lemma well_formed_hex_iff:
  "well_formed_hex s = hex_digits_3_or_6 (strip_hash s)"
proof (cases s)
  case Nil
  then show ?thesis by (simp add: well_formed_hex_def strip_hash_def hex_digits_3_or_6_def)
next
  case (Cons c ds)
  show ?thesis
  proof (cases "c = CHR ''#''")
    case True
    have "\<not> hex_digits_3_or_6 (CHR ''#'' # ds)"
      by (auto simp: hex_digits_3_or_6_def is_hex_def)
    with True Cons show ?thesis
      by (simp add: well_formed_hex_def strip_hash_def)
  next
    case False
    with Cons show ?thesis
      by (simp add: well_formed_hex_def strip_hash_def)
  qed
qed

lemma expand_shorthand_3:
  assumes "length (strip_hash s) = 3" "list_all is_hex (strip_hash s)"
  shows "strip_hash (expand_shorthand s) =
     [strip_hash s ! 0, strip_hash s ! 0, strip_hash s ! 1, strip_hash s ! 1, strip_hash s ! 2, strip_hash s ! 2]"
proof -
  have "is_hex (strip_hash s ! 0)"
    using assms by (simp add: list_all_length)
  then show ?thesis
    using assms by (simp add: expand_shorthand_def Let_def strip_hash_def is_hex_not_hash)
qed

lemma expand_shorthand_other:
  "\<not> (length (strip_hash s) = 3 \<and> list_all is_hex (strip_hash s)) \<Longrightarrow> expand_shorthand s = s"
  by (auto simp: expand_shorthand_def)

lemma hexToRgb_None_iff: "hexToRgb s = None \<longleftrightarrow> \<not> well_formed_hex s"
proof (cases "length (strip_hash s) = 3 \<and> list_all is_hex (strip_hash s)")
  case True
  then have "strip_hash (expand_shorthand s) =
     [strip_hash s ! 0, strip_hash s ! 0, strip_hash s ! 1, strip_hash s ! 1, strip_hash s ! 2, strip_hash s ! 2]"
    by (simp add: expand_shorthand_3)
  moreover have "is_hex (strip_hash s ! 0)" "is_hex (strip_hash s ! 1)" "is_hex (strip_hash s ! 2)"
    using True by (simp_all add: list_all_length)
  ultimately have "hexToRgb s \<noteq> None"
    by (simp add: hexToRgb_def Let_def)
  with True show ?thesis
    by (simp add: well_formed_hex_iff hex_digits_3_or_6_def)
next
  case False
  then have "expand_shorthand s = s" by (rule expand_shorthand_other)
  then show ?thesis
    using False by (auto simp: hexToRgb_def Let_def well_formed_hex_iff hex_digits_3_or_6_def)
qed

lemma parseInt16_pair: "parseInt16 [a, b] = 16 * digit_value a + digit_value b"
  by (simp add: parseInt16_def)

lemma hexToRgb_six:
  assumes "list_all is_hex [a, b, c, d, e, f]"
  shows "hexToRgb [a, b, c, d, e, f] =
           Some \<lparr>rgb_r = real (16 * digit_value a + digit_value b),
                 rgb_g = real (16 * digit_value c + digit_value d),
                 rgb_b = real (16 * digit_value e + digit_value f)\<rparr>"
proof -
  have s: "strip_hash [a, b, c, d, e, f] = [a, b, c, d, e, f]"
    using assms by (rule strip_hash_hex)
  have "expand_shorthand [a, b, c, d, e, f] = [a, b, c, d, e, f]"
    by (rule expand_shorthand_other) (simp add: s)
  then show ?thesis
    using assms by (simp add: hexToRgb_def Let_def s parseInt16_pair)
qed

lemma hexToRgb_hash_six:
  assumes "list_all is_hex [a, b, c, d, e, f]"
  shows "hexToRgb (CHR ''#'' # [a, b, c, d, e, f]) = hexToRgb [a, b, c, d, e, f]"
proof -
  have s: "strip_hash [a, b, c, d, e, f] = [a, b, c, d, e, f]"
    using assms by (rule strip_hash_hex)
  have "expand_shorthand [a, b, c, d, e, f] = [a, b, c, d, e, f]"
    by (rule expand_shorthand_other) (simp add: s)
  moreover have "expand_shorthand (CHR ''#'' # [a, b, c, d, e, f]) = CHR ''#'' # [a, b, c, d, e, f]"
    by (rule expand_shorthand_other) (simp add: strip_hash_Cons_hash)
  ultimately show ?thesis
    by (simp add: hexToRgb_def Let_def s strip_hash_Cons_hash)
qed

lemma hexToRgb_three:
  assumes "list_all is_hex [a, b, c]"
  shows "hexToRgb [a, b, c] = hexToRgb [a, a, b, b, c, c]"
    and "hexToRgb (CHR ''#'' # [a, b, c]) = hexToRgb [a, a, b, b, c, c]"
proof -
  have s3: "strip_hash [a, b, c] = [a, b, c]"
    using assms by (rule strip_hash_hex)
  have h6: "list_all is_hex [a, a, b, b, c, c]"
    using assms by simp
  have s6: "strip_hash [a, a, b, b, c, c] = [a, a, b, b, c, c]"
    using h6 by (rule strip_hash_hex)
  have e6: "expand_shorthand [a, a, b, b, c, c] = [a, a, b, b, c, c]"
    by (rule expand_shorthand_other) (simp add: s6)
  have e3: "expand_shorthand [a, b, c] = [a, a, b, b, c, c]"
    using assms by (simp add: expand_shorthand_def Let_def s3)
  have e3h: "expand_shorthand (CHR ''#'' # [a, b, c]) = [a, a, b, b, c, c]"
    using assms by (simp add: expand_shorthand_def Let_def strip_hash_Cons_hash)
  show "hexToRgb [a, b, c] = hexToRgb [a, a, b, b, c, c]"
    by (simp add: hexToRgb_def e3 e6)
  show "hexToRgb (CHR ''#'' # [a, b, c]) = hexToRgb [a, a, b, b, c, c]"
    by (simp add: hexToRgb_def e3h e6)
qed

text \<open>
  Claim C6. \<^verbatim>\<open>hexToRgb\<close> accepts 3-digit and 6-digit hex strings with an optional
  leading \<^verbatim>\<open>#\<close>; a 3-digit shorthand gives the same result as its digit-duplicated
  6-digit form; each pair of digits is read in base 16 (the table of digit values is
  part of the statement); \<^verbatim>\<open>#FFF\<close> and \<^verbatim>\<open>#FFFFFF\<close> both give \<open>(255, 255, 255)\<close>.
\<close>

theorem hexToRgb_shorthand_expansion:
  "hexToRgb ''#FFF'' = Some \<lparr>rgb_r = 255, rgb_g = 255, rgb_b = 255\<rparr> \<and>
   hexToRgb ''#FFFFFF'' = Some \<lparr>rgb_r = 255, rgb_g = 255, rgb_b = 255\<rparr> \<and>
   map digit_value ''0123456789abcdefABCDEF'' =
     [0, 1, 2, 3, 4, 5, 6, 7, 8, 9, 10, 11, 12, 13, 14, 15, 10, 11, 12, 13, 14, 15] \<and>
   (is_hex a \<and> is_hex b \<and> is_hex c \<longrightarrow>
      hexToRgb [a, b, c] = hexToRgb [a, a, b, b, c, c] \<and>
      hexToRgb (CHR ''#'' # [a, b, c]) = hexToRgb (CHR ''#'' # [a, a, b, b, c, c]) \<and>
      hexToRgb (CHR ''#'' # [a, b, c]) = hexToRgb [a, b, c]) \<and>
   (is_hex a \<and> is_hex b \<and> is_hex c \<and> is_hex d \<and> is_hex e \<and> is_hex f \<longrightarrow>
      hexToRgb (CHR ''#'' # [a, b, c, d, e, f]) = hexToRgb [a, b, c, d, e, f] \<and>
      hexToRgb [a, b, c, d, e, f] =
        Some \<lparr>rgb_r = real (16 * digit_value a + digit_value b),
              rgb_g = real (16 * digit_value c + digit_value d),
              rgb_b = real (16 * digit_value e + digit_value f)\<rparr>)"
proof (intro conjI impI)
  show "hexToRgb ''#FFF'' = Some \<lparr>rgb_r = 255, rgb_g = 255, rgb_b = 255\<rparr>"
    by (simp add: hexToRgb_def expand_shorthand_def strip_hash_def is_hex_def Let_def
        parseInt16_def digit_value_def)
  show "hexToRgb ''#FFFFFF'' = Some \<lparr>rgb_r = 255, rgb_g = 255, rgb_b = 255\<rparr>"
    by (simp add: hexToRgb_def expand_shorthand_def strip_hash_def is_hex_def Let_def
        parseInt16_def digit_value_def)
  show "map digit_value ''0123456789abcdefABCDEF'' =
     [0, 1, 2, 3, 4, 5, 6, 7, 8, 9, 10, 11, 12, 13, 14, 15, 10, 11, 12, 13, 14, 15]"
    by (simp add: digit_value_def)
next
  assume h: "is_hex a \<and> is_hex b \<and> is_hex c"
  then have l: "list_all is_hex [a, b, c]" by simp
  show "hexToRgb [a, b, c] = hexToRgb [a, a, b, b, c, c]"
    using l by (rule hexToRgb_three)
  have "list_all is_hex [a, a, b, b, c, c]" using h by simp
  then have "hexToRgb (CHR ''#'' # [a, a, b, b, c, c]) = hexToRgb [a, a, b, b, c, c]"
    by (rule hexToRgb_hash_six)
  then show "hexToRgb (CHR ''#'' # [a, b, c]) = hexToRgb (CHR ''#'' # [a, a, b, b, c, c])"
    using hexToRgb_three(2)[OF l] by simp
  show "hexToRgb (CHR ''#'' # [a, b, c]) = hexToRgb [a, b, c]"
    using hexToRgb_three[OF l] by simp
next
  assume "is_hex a \<and> is_hex b \<and> is_hex c \<and> is_hex d \<and> is_hex e \<and> is_hex f"
  then have l: "list_all is_hex [a, b, c, d, e, f]" by simp
  show "hexToRgb (CHR ''#'' # [a, b, c, d, e, f]) = hexToRgb [a, b, c, d, e, f]"
    using l by (rule hexToRgb_hash_six)
  show "hexToRgb [a, b, c, d, e, f] =
        Some \<lparr>rgb_r = real (16 * digit_value a + digit_value b),
              rgb_g = real (16 * digit_value c + digit_value d),
              rgb_b = real (16 * digit_value e + digit_value f)\<rparr>"
    using l by (rule hexToRgb_six)
qed

text \<open>The shorthand \<^verbatim>\<open>03F\<close> of the source's comment, and a 6-digit string.\<close>

theorem hexToRgb_shorthand_expansion_witness:
  "is_hex CHR ''0'' \<and> is_hex CHR ''3'' \<and> is_hex CHR ''F'' \<and> is_hex CHR ''a'' \<and>
   hexToRgb ''03F'' = hexToRgb ''0033FF'' \<and>
   hexToRgb ''#03F'' = hexToRgb ''#0033FF'' \<and>
   hexToRgb ''#03Fa3F'' = hexToRgb ''03Fa3F'' \<and>
   hexToRgb ''03Fa3F'' = Some \<lparr>rgb_r = 3, rgb_g = 250, rgb_b = 63\<rparr>"
  using hexToRgb_shorthand_expansion
    [of "CHR ''0''" "CHR ''3''" "CHR ''F''" "CHR ''a''" "CHR ''3''" "CHR ''F''"]
  by (simp add: is_hex_def digit_value_def)

text \<open>
  Claim C7. A string that is not exactly 3 or 6 hex digits after an optional leading
  \<^verbatim>\<open>#\<close> makes \<^verbatim>\<open>hexToRgb\<close> return \<^verbatim>\<open>null\<close> (the function has no throwing branch
  on a string), and only such a string does; \<^verbatim>\<open>hexToRgb("not-a-color")\<close> is
  \<^verbatim>\<open>null\<close>.
\<close>

theorem hexToRgb_malformed_null:
  "(\<not> well_formed_hex s \<longrightarrow> hexToRgb s = None) \<and>
   (well_formed_hex s \<longrightarrow> hexToRgb s \<noteq> None) \<and>
   hexToRgb ''not-a-color'' = None"
proof -
  have "\<not> well_formed_hex ''not-a-color''"
    by (simp add: well_formed_hex_def hex_digits_3_or_6_def)
  then show ?thesis
    by (simp add: hexToRgb_None_iff)
qed

text \<open>A 5-digit string is rejected, a 3-digit one is accepted.\<close>

theorem hexToRgb_malformed_null_witness:
  "\<not> well_formed_hex ''#12345'' \<and> hexToRgb ''#12345'' = None \<and>
   well_formed_hex ''#1a2'' \<and> hexToRgb ''#1a2'' \<noteq> None"
  using hexToRgb_malformed_null [of "''#12345''"] hexToRgb_malformed_null [of "''#1a2''"]
  by (simp add: well_formed_hex_def hex_digits_3_or_6_def is_hex_def)

subsection \<open>Rounding to doubles\<close>

lemma pow2_powr: "pow2 e = 2 powr (real_of_int e)"
proof (cases "0 \<le> e")
  case True
  then have "2 powr (real_of_int e) = 2 powr (real (nat e))" by simp
  also have "\<dots> = 2 ^ nat e" by (simp add: powr_realpow)
  finally show ?thesis using True by (simp add: pow2_def)
next
  case False
  then have "2 powr (real_of_int e) = 2 powr (- real (nat (- e)))"
    by (intro arg_cong [where f = "\<lambda>y. 2 powr y"]) simp
  also have "\<dots> = 1 / 2 powr (real (nat (- e)))" by (simp add: powr_minus_divide)
  also have "\<dots> = 1 / 2 ^ nat (- e)" by (simp add: powr_realpow)
  finally show ?thesis using False by (simp add: pow2_def)
qed

lemma binary64_eval:
  assumes "pow2 k \<le> \<bar>x\<bar>" and "\<bar>x\<bar> < pow2 (k + 1)"
  shows "binary64 x = binary64_at k x"
proof -
  have pos: "0 < pow2 k" by (simp only: pow2_powr powr_gt_zero)
  with assms(1) have x: "0 < \<bar>x\<bar>" by linarith
  have lo: "2 powr (real_of_int k) \<le> \<bar>x\<bar>"
    using assms(1) by (simp only: pow2_powr)
  have hi: "\<bar>x\<bar> < 2 powr (real_of_int (k + 1))"
    using assms(2) by (simp only: pow2_powr)
  have "\<lfloor>log 2 \<bar>x\<bar>\<rfloor> = k"
    using x lo hi floor_log_eq_powr_iff [of "\<bar>x\<bar>" 2 k] by simp
  moreover have "x \<noteq> 0" using x by auto
  ultimately show ?thesis by (simp only: binary64_def if_False)
qed

lemma binary64_0: "binary64 0 = 0"
  by (simp add: binary64_def)

lemma binary64_1: "binary64 1 = 1"
  by (subst binary64_eval [where k = 0])
    (simp_all add: pow2_def binary64_at_def round_ties_even_def Let_def)

lemma binary64_102: "binary64 102 = 102"
  by (subst binary64_eval [where k = 6])
    (simp_all add: pow2_def binary64_at_def round_ties_even_def Let_def)

text \<open>The literal \<^verbatim>\<open>0.05\<close> is itself a double, a little above \<open>1 / 20\<close>.\<close>

lemma binary64_lerpSpeed: "binary64 lerpSpeed = 3602879701896397 / 2 ^ 56"
  unfolding lerpSpeed_def
  by (subst binary64_eval [where k = "- 5"])
    (simp_all add: pow2_def binary64_at_def round_ties_even_def Let_def)

lemma c8_one_minus_t: "binary64 (1 - 3602879701896397 / 2 ^ 56) = 4278419646001971 / 2 ^ 52"
  by (subst binary64_eval [where k = "- 1"])
    (simp_all add: pow2_def binary64_at_def round_ties_even_def Let_def)

lemma c8_start_term: "binary64 (102 * (4278419646001971 / 2 ^ 52)) = 6818731310815641 / 2 ^ 46"
  by (subst binary64_eval [where k = 6])
    (simp_all add: pow2_def binary64_at_def round_ties_even_def Let_def)

lemma c8_end_term: "binary64 (102 * (3602879701896397 / 2 ^ 56)) = 5742089524897383 / 2 ^ 50"
  by (subst binary64_eval [where k = 2])
    (simp_all add: pow2_def binary64_at_def round_ties_even_def Let_def)

lemma c8_sum: "binary64 (6818731310815641 / 2 ^ 46 + 5742089524897383 / 2 ^ 50) = 7177611906121727 / 2 ^ 46"
  by (subst binary64_eval [where k = 6])
    (simp_all add: pow2_def binary64_at_def round_ties_even_def Let_def)

lemma c9_lo_t: "binary64 (7067064319980021 / 2 ^ 53) = 7067064319980021 / 2 ^ 53"
  by (subst binary64_eval [where k = "- 1"])
    (simp_all add: pow2_def binary64_at_def round_ties_even_def Let_def)

lemma c9_lo_one_minus_t: "binary64 (1 - 7067064319980021 / 2 ^ 53) = 1940134934760971 / 2 ^ 53"
  by (subst binary64_eval [where k = "- 3"])
    (simp_all add: pow2_def binary64_at_def round_ties_even_def Let_def)

lemma c9_lo_start_term: "binary64 (1 * (1940134934760971 / 2 ^ 53)) = 1940134934760971 / 2 ^ 53"
  by (subst binary64_eval [where k = "- 3"])
    (simp_all add: pow2_def binary64_at_def round_ties_even_def Let_def)

lemma c9_lo_end_term: "binary64 (3 * (7067064319980021 / 2 ^ 53)) = 662537279998127 / 2 ^ 48"
  by (subst binary64_eval [where k = 1])
    (simp_all add: pow2_def binary64_at_def round_ties_even_def Let_def)

lemma c9_lo_sum: "binary64 (1940134934760971 / 2 ^ 53 + 662537279998127 / 2 ^ 48) = 5785331973675259 / 2 ^ 51"
  by (subst binary64_eval [where k = 1])
    (simp_all add: pow2_def binary64_at_def round_ties_even_def Let_def)

lemma c9_hi_t: "binary64 (3533532159990011 / 2 ^ 52) = 3533532159990011 / 2 ^ 52"
  by (subst binary64_eval [where k = "- 1"])
    (simp_all add: pow2_def binary64_at_def round_ties_even_def Let_def)

lemma c9_hi_one_minus_t: "binary64 (1 - 3533532159990011 / 2 ^ 52) = 970067467380485 / 2 ^ 52"
  by (subst binary64_eval [where k = "- 3"])
    (simp_all add: pow2_def binary64_at_def round_ties_even_def Let_def)

lemma c9_hi_start_term: "binary64 (1 * (970067467380485 / 2 ^ 52)) = 970067467380485 / 2 ^ 52"
  by (subst binary64_eval [where k = "- 3"])
    (simp_all add: pow2_def binary64_at_def round_ties_even_def Let_def)

lemma c9_hi_end_term: "binary64 (3 * (3533532159990011 / 2 ^ 52)) = 662537279998127 / 2 ^ 48"
  by (subst binary64_eval [where k = 1])
    (simp_all add: pow2_def binary64_at_def round_ties_even_def Let_def)

lemma c9_hi_sum: "binary64 (970067467380485 / 2 ^ 52 + 662537279998127 / 2 ^ 48) = 2892665986837629 / 2 ^ 50"
  by (subst binary64_eval [where k = 1])
    (simp_all add: pow2_def binary64_at_def round_ties_even_def Let_def)

lemma lerp_binary64_102: "lerp_binary64 102 102 (binary64 lerpSpeed) = 7177611906121727 / 2 ^ 46"
  by (simp only: lerp_binary64_def binary64_lerpSpeed c8_one_minus_t c8_start_term c8_end_term
      c8_sum)

lemma lerp_binary64_lo: "lerp_binary64 1 3 (7067064319980021 / 2 ^ 53) = 5785331973675259 / 2 ^ 51"
  by (simp only: lerp_binary64_def c9_lo_one_minus_t c9_lo_start_term c9_lo_end_term c9_lo_sum)

lemma lerp_binary64_hi: "lerp_binary64 1 3 (3533532159990011 / 2 ^ 52) = 2892665986837629 / 2 ^ 50"
  by (simp only: lerp_binary64_def c9_hi_one_minus_t c9_hi_start_term c9_hi_end_term c9_hi_sum)

subsection \<open>Linear interpolation\<close>

text \<open>
  Claim C9, as amended. \<^verbatim>\<open>lerp(a, b, t)\<close> is \<open>a * (1 - t) + b * t\<close>; it is \<open>a\<close> at
  \<open>t = 0\<close> and \<open>b\<close> at \<open>t = 1\<close>, also as evaluated in doubles, for doubles \<open>a\<close> and \<open>b\<close>;
  for \<open>a < b\<close> it is non-decreasing in \<open>t\<close> on \<open>[0, 1]\<close> when the arithmetic is read
  exactly.
\<close>

theorem lerp_endpoints_monotone:
  "lerp a b t = a * (1 - t) + b * t \<and>
   lerp a b 0 = a \<and>
   lerp a b 1 = b \<and>
   (binary64 a = a \<longrightarrow> lerp_binary64 a b 0 = a) \<and>
   (binary64 b = b \<longrightarrow> lerp_binary64 a b 1 = b) \<and>
   (a < b \<and> 0 \<le> t1 \<and> t1 \<le> t2 \<and> t2 \<le> 1 \<longrightarrow> lerp a b t1 \<le> lerp a b t2)"
proof (intro conjI impI)
  assume h: "a < b \<and> 0 \<le> t1 \<and> t1 \<le> t2 \<and> t2 \<le> 1"
  have "lerp a b t2 - lerp a b t1 = (b - a) * (t2 - t1)"
    by (simp add: lerp_def algebra_simps)
  moreover have "0 \<le> (b - a) * (t2 - t1)"
    using h by simp
  ultimately show "lerp a b t1 \<le> lerp a b t2" by linarith
next
  assume "binary64 a = a"
  then show "lerp_binary64 a b 0 = a"
    by (simp add: lerp_binary64_def binary64_0 binary64_1)
next
  assume "binary64 b = b"
  then show "lerp_binary64 a b 1 = b"
    by (simp add: lerp_binary64_def binary64_0 binary64_1)
qed (simp_all add: lerp_def)

text \<open>From 0 to 10, at a quarter and at a half; and from 102 to 1 in doubles.\<close>

theorem lerp_endpoints_monotone_witness:
  "(0::real) < 10 \<and> (0::real) \<le> 1 / 4 \<and> (1 / 4 :: real) \<le> 1 / 2 \<and> (1 / 2 :: real) \<le> 1 \<and>
   lerp 0 10 0 = 0 \<and> lerp 0 10 1 = 10 \<and> lerp 0 10 (1 / 4) \<le> lerp 0 10 (1 / 2) \<and>
   lerp 0 10 (1 / 4) = 5 / 2 \<and> lerp 0 10 (1 / 2) = 5 \<and>
   binary64 102 = 102 \<and> binary64 1 = 1 \<and>
   lerp_binary64 102 1 0 = 102 \<and> lerp_binary64 102 1 1 = 1"
  using lerp_endpoints_monotone [of 0 10 "1 / 4" "1 / 4" "1 / 2"]
    lerp_endpoints_monotone [of 0 10 "1 / 2"]
    lerp_endpoints_monotone [of 102 1]
  by (simp add: binary64_102 binary64_1)

text \<open>
  Claim C9 as stated fails in doubles: from 1 to 3, the two neighbouring doubles
  \<open>7067064319980021 / 2 ^ 53\<close> and \<open>3533532159990011 / 2 ^ 52\<close> (0.7846017524548744 and
  0.7846017524548745)
  give 2.569203504909749 and, for the larger \<open>t\<close>, the smaller 2.5692035049097486.
\<close>

theorem lerp_monotone_counterexample:
  "(1::real) < 3 \<and>
   (0::real) \<le> 7067064319980021 / 2 ^ 53 \<and>
   (7067064319980021 / 2 ^ 53 :: real) < 3533532159990011 / 2 ^ 52 \<and>
   (3533532159990011 / 2 ^ 52 :: real) \<le> 1 \<and>
   binary64 (7067064319980021 / 2 ^ 53) = 7067064319980021 / 2 ^ 53 \<and>
   binary64 (3533532159990011 / 2 ^ 52) = 3533532159990011 / 2 ^ 52 \<and>
   lerp_binary64 1 3 (7067064319980021 / 2 ^ 53) = 5785331973675259 / 2 ^ 51 \<and>
   lerp_binary64 1 3 (3533532159990011 / 2 ^ 52) = 2892665986837629 / 2 ^ 50 \<and>
   lerp_binary64 1 3 (3533532159990011 / 2 ^ 52) < lerp_binary64 1 3 (7067064319980021 / 2 ^ 53)"
  by (simp only: c9_lo_t c9_hi_t lerp_binary64_lo lerp_binary64_hi) simp

subsection \<open>One update\<close>

lemma Particle_update_Some:
  "targetRgb p = Some t \<Longrightarrow>
   Particle_update W H tm m p =
     Inr (smooth_mouse tm m,
          wrap W H (relax_radius (repel (smooth_mouse tm m) (organic_float (ease_colour t p)))))"
  by (simp add: Particle_update_def Let_def)

lemma Particle_update_None:
  "targetRgb p = None \<Longrightarrow> Particle_update W H tm m p = Inl TypeError"
  by (simp add: Particle_update_def)

lemma colour_fields_wrap [simp]:
  "targetRgb (wrap W H p) = targetRgb p" "currentRgb (wrap W H p) = currentRgb p"
  "radius (wrap W H p) = radius p" "baseRadius (wrap W H p) = baseRadius p"
  "vx (wrap W H p) = vx p" "vy (wrap W H p) = vy p"
  by (simp_all add: wrap_def Let_def)

lemma colour_fields_relax [simp]:
  "targetRgb (relax_radius p) = targetRgb p" "currentRgb (relax_radius p) = currentRgb p"
  "baseRadius (relax_radius p) = baseRadius p"
  "vx (relax_radius p) = vx p" "vy (relax_radius p) = vy p"
  "px (relax_radius p) = px p" "py (relax_radius p) = py p"
  by (simp_all add: relax_radius_def)

lemma colour_fields_repel [simp]:
  "targetRgb (repel m p) = targetRgb p" "currentRgb (repel m p) = currentRgb p"
  "radius (repel m p) = radius p" "baseRadius (repel m p) = baseRadius p"
  "px (repel m p) = px p" "py (repel m p) = py p"
  by (simp_all add: repel_def Let_def)

lemma colour_fields_float [simp]:
  "targetRgb (organic_float p) = targetRgb p" "currentRgb (organic_float p) = currentRgb p"
  "radius (organic_float p) = radius p" "baseRadius (organic_float p) = baseRadius p"
  by (simp_all add: organic_float_def Let_def)

lemma fields_ease_colour [simp]:
  "targetRgb (ease_colour t p) = targetRgb p"
  "radius (ease_colour t p) = radius p" "baseRadius (ease_colour t p) = baseRadius p"
  "px (ease_colour t p) = px p" "py (ease_colour t p) = py p"
  "vx (ease_colour t p) = vx p" "vy (ease_colour t p) = vy p"
  "angle (ease_colour t p) = angle p" "speed (ease_colour t p) = speed p"
  by (simp_all add: ease_colour_def)

lemma organic_float_ease_colour [simp]:
  "px (organic_float (ease_colour t p)) = px (organic_float p)"
  "py (organic_float (ease_colour t p)) = py (organic_float p)"
  "vx (organic_float (ease_colour t p)) = vx (organic_float p)"
  "vy (organic_float (ease_colour t p)) = vy (organic_float p)"
  by (simp_all add: organic_float_def Let_def)

lemma isActive_smooth_mouse [simp]: "isActive (smooth_mouse tm m) = isActive m"
  by (simp add: smooth_mouse_def)

text \<open>An update keeps the target and the base radius, and a radius equal to its base
  radius.\<close>

lemma Particle_update_radius:
  assumes "Particle_update W H tm m p = Inr (m', p')"
  shows "baseRadius p' = baseRadius p \<and> targetRgb p' = targetRgb p \<and>
         radius p' = radius p + (baseRadius p - radius p) * 0.05 \<and>
         (radius p = baseRadius p \<longrightarrow> radius p' = radius p)"
proof (cases "targetRgb p")
  case None
  with assms show ?thesis by (simp add: Particle_update_None)
next
  case (Some t)
  with assms have "p' = wrap W H (relax_radius (repel (smooth_mouse tm m)
      (organic_float (ease_colour t p))))"
    by (auto simp: Particle_update_Some)
  then show ?thesis
    by (simp add: relax_radius_def)
qed

lemma example_particle_float:
  "px (organic_float (example_particle\<lparr>px := a, py := b\<rparr>)) = a"
  "py (organic_float (example_particle\<lparr>px := a, py := b\<rparr>)) = b"
  "vx (organic_float (example_particle\<lparr>px := a, py := b\<rparr>)) = 0"
  "vy (organic_float (example_particle\<lparr>px := a, py := b\<rparr>)) = 0"
  by (simp_all add: organic_float_def example_particle_def Let_def)

lemma example_particle_target:
  "targetRgb (example_particle\<lparr>px := a, py := b\<rparr>) = Some \<lparr>rgb_r = 255, rgb_g = 209, rgb_b = 102\<rparr>"
  by (simp add: example_particle_def)

subsection \<open>The pointer over a frame\<close>

lemma smooth_mouse_x:
  "mouse_x (smooth_mouse tm m) - tm_x tm = 0.9 * (mouse_x m - tm_x tm)"
  by (simp add: smooth_mouse_def field_simps)

lemma smooth_mouse_y:
  "mouse_y (smooth_mouse tm m) - tm_y tm = 0.9 * (mouse_y m - tm_y tm)"
  by (simp add: smooth_mouse_def field_simps)

lemma smooth_mouse_funpow:
  "mouse_x ((smooth_mouse tm ^^ k) m) = tm_x tm + 0.9 ^ k * (mouse_x m - tm_x tm) \<and>
   mouse_y ((smooth_mouse tm ^^ k) m) = tm_y tm + 0.9 ^ k * (mouse_y m - tm_y tm)"
proof (induction k)
  case 0
  show ?case by simp
next
  case (Suc k)
  have "mouse_x (smooth_mouse tm ((smooth_mouse tm ^^ k) m)) =
          tm_x tm + 0.9 * (mouse_x ((smooth_mouse tm ^^ k) m) - tm_x tm)"
    using smooth_mouse_x [of tm "(smooth_mouse tm ^^ k) m"] by linarith
  moreover have "mouse_y (smooth_mouse tm ((smooth_mouse tm ^^ k) m)) =
          tm_y tm + 0.9 * (mouse_y ((smooth_mouse tm ^^ k) m) - tm_y tm)"
    using smooth_mouse_y [of tm "(smooth_mouse tm ^^ k) m"] by linarith
  ultimately show ?case
    using Suc by simp
qed

lemma animate_particles_ok:
  assumes "\<forall>p\<in>set ps. targetRgb p \<noteq> None"
  shows "\<exists>cv' ps'. animate_particles W H tm m cv ps =
            (None, (smooth_mouse tm ^^ length ps) m, cv', ps') \<and>
          length ps' = length ps \<and>
          (\<forall>i<length ps. targetRgb (ps' ! i) = targetRgb (ps ! i) \<and>
             currentRgb (ps' ! i) =
               currentRgb (ease_colour (the (targetRgb (ps ! i))) (ps ! i)))"
  using assms
proof (induction ps arbitrary: m cv)
  case Nil
  show ?case by simp
next
  case (Cons p ps)
  from Cons.prems obtain t where t: "targetRgb p = Some t" by auto
  define m1 where "m1 = smooth_mouse tm m"
  define p1 where "p1 = wrap W H (relax_radius (repel m1 (organic_float (ease_colour t p))))"
  have upd: "Particle_update W H tm m p = Inr (m1, p1)"
    using t by (simp add: Particle_update_Some m1_def p1_def)
  from Cons.prems have "\<forall>q\<in>set ps. targetRgb q \<noteq> None" by simp
  from Cons.IH [OF this, of m1 "cv @ [draw p1]"]
  obtain cv' ps' where
    rec: "animate_particles W H tm m1 (cv @ [draw p1]) ps =
            (None, (smooth_mouse tm ^^ length ps) m1, cv', ps')"
    and len: "length ps' = length ps"
    and col: "\<forall>i<length ps. targetRgb (ps' ! i) = targetRgb (ps ! i) \<and>
             currentRgb (ps' ! i) =
               currentRgb (ease_colour (the (targetRgb (ps ! i))) (ps ! i))"
    by blast
  have res: "animate_particles W H tm m cv (p # ps) =
          (None, (smooth_mouse tm ^^ length (p # ps)) m, cv', p1 # ps')"
    using rec by (simp add: upd funpow_swap1) (simp add: m1_def)
  have p1c: "targetRgb p1 = targetRgb p \<and> currentRgb p1 = currentRgb (ease_colour (the (targetRgb p)) p)"
    by (simp add: p1_def t)
  have "\<forall>i<length (p # ps). targetRgb ((p1 # ps') ! i) = targetRgb ((p # ps) ! i) \<and>
             currentRgb ((p1 # ps') ! i) =
               currentRgb (ease_colour (the (targetRgb ((p # ps) ! i))) ((p # ps) ! i))"
  proof (intro allI impI)
    fix i assume "i < length (p # ps)"
    then show "targetRgb ((p1 # ps') ! i) = targetRgb ((p # ps) ! i) \<and>
             currentRgb ((p1 # ps') ! i) =
               currentRgb (ease_colour (the (targetRgb ((p # ps) ! i))) ((p # ps) ! i))"
      using p1c col by (cases i) simp_all
  qed
  with res len show ?case by simp
qed

lemma animate_ok:
  assumes "\<forall>p\<in>set (particles s). targetRgb p \<noteq> None"
  shows "\<exists>s'. animate s = Returned s' \<and>
          length (particles s') = length (particles s) \<and>
          (\<forall>i<length (particles s).
             targetRgb (particles s' ! i) = targetRgb (particles s ! i) \<and>
             currentRgb (particles s' ! i) =
               currentRgb (ease_colour (the (targetRgb (particles s ! i))) (particles s ! i))) \<and>
          mouse s' = (smooth_mouse (targetMouse s) ^^ length (particles s)) (mouse s) \<and>
          targetMouse s' = targetMouse s \<and> width s' = width s \<and> height s' = height s"
proof -
  from animate_particles_ok [OF assms, of "width s" "height s" "targetMouse s" "mouse s" "[]"]
  obtain cv' ps' where
    run: "animate_particles (width s) (height s) (targetMouse s) (mouse s) [] (particles s) =
            (None, (smooth_mouse (targetMouse s) ^^ length (particles s)) (mouse s), cv', ps')"
    and len: "length ps' = length (particles s)"
    and col: "\<forall>i<length (particles s).
             targetRgb (ps' ! i) = targetRgb (particles s ! i) \<and>
             currentRgb (ps' ! i) =
               currentRgb (ease_colour (the (targetRgb (particles s ! i))) (particles s ! i))"
    by blast
  show ?thesis
    using len col by (simp add: animate_def run)
qed

lemma pointer_reads_ok:
  assumes "\<forall>p\<in>set ps. targetRgb p \<noteq> None"
  shows "pointer_reads W H tm m ps = map (\<lambda>k. (smooth_mouse tm ^^ Suc k) m) [0..<length ps]"
  using assms
proof (induction ps arbitrary: m)
  case Nil
  show ?case by simp
next
  case (Cons p ps)
  from Cons.prems obtain t where t: "targetRgb p = Some t" by auto
  from Cons.prems have "\<forall>q\<in>set ps. targetRgb q \<noteq> None" by simp
  from Cons.IH [OF this, of "smooth_mouse tm m"]
  have rec: "pointer_reads W H tm (smooth_mouse tm m) ps =
      map (\<lambda>k. (smooth_mouse tm ^^ Suc k) (smooth_mouse tm m)) [0..<length ps]" .
  have "[0..<length (p # ps)] = 0 # map Suc [0..<length ps]"
    by (simp add: upt_conv_Cons map_Suc_upt del: upt_Suc)
  then show ?case
    using t by (simp add: Particle_update_Some rec funpow_swap1 o_def del: upt_Suc)
qed

lemma animate_pointer_is_last_read:
  assumes "\<forall>p\<in>set ps. targetRgb p \<noteq> None"
  shows "fst (snd (animate_particles W H tm m cv ps)) = last (m # pointer_reads W H tm m ps)"
  using assms
proof (induction ps arbitrary: m cv)
  case Nil
  then show ?case by simp
next
  case (Cons p ps)
  from Cons.prems obtain t where t: "targetRgb p = Some t" by auto
  from Cons.prems have rest: "\<forall>q\<in>set ps. targetRgb q \<noteq> None" by simp
  define m1 where "m1 = smooth_mouse tm m"
  define p1 where "p1 = wrap W H (relax_radius (repel m1 (organic_float (ease_colour t p))))"
  have upd: "Particle_update W H tm m p = Inr (m1, p1)"
    using t by (simp add: Particle_update_Some m1_def p1_def)
  obtain e m2 cv2 ps2 where
    rec: "animate_particles W H tm m1 (cv @ [draw p1]) ps = (e, m2, cv2, ps2)"
    by (cases "animate_particles W H tm m1 (cv @ [draw p1]) ps") auto
  have "m2 = last (m1 # pointer_reads W H tm m1 ps)"
    using Cons.IH [OF rest, of m1 "cv @ [draw p1]"] rec by simp
  then show ?case
    by (simp add: upd rec)
qed

lemma animate_mouse:
  "mouse (state_of (animate s)) =
     fst (snd (animate_particles (width s) (height s) (targetMouse s) (mouse s) [] (particles s)))"
  by (simp add: animate_def Let_def split: prod.splits option.splits)

text \<open>For every state whose particles have a target: the particle at pool index \<open>i\<close>
  is repelled from the pointer eased \<open>i + 1\<close> times, and the frame leaves the pointer
  eased once per particle. The closed forms read the arithmetic exactly.\<close>

lemma animate_particles_each:
  assumes "\<forall>p\<in>set ps. targetRgb p \<noteq> None"
  shows "\<forall>i<length ps.
           snd (snd (snd (animate_particles W H tm m cv ps))) ! i =
             wrap W H (relax_radius (repel ((smooth_mouse tm ^^ Suc i) m)
               (organic_float (ease_colour (the (targetRgb (ps ! i))) (ps ! i)))))"
  using assms
proof (induction ps arbitrary: m cv)
  case Nil
  show ?case by simp
next
  case (Cons p ps)
  from Cons.prems obtain t where t: "targetRgb p = Some t" by auto
  define m1 where "m1 = smooth_mouse tm m"
  define p1 where "p1 = wrap W H (relax_radius (repel m1 (organic_float (ease_colour t p))))"
  have upd: "Particle_update W H tm m p = Inr (m1, p1)"
    using t by (simp add: Particle_update_Some m1_def p1_def)
  from Cons.prems have rest: "\<forall>q\<in>set ps. targetRgb q \<noteq> None" by simp
  obtain e m2 cv2 ps2 where
    rec: "animate_particles W H tm m1 (cv @ [draw p1]) ps = (e, m2, cv2, ps2)"
    by (cases "animate_particles W H tm m1 (cv @ [draw p1]) ps") auto
  have ih: "\<forall>i<length ps. ps2 ! i =
             wrap W H (relax_radius (repel ((smooth_mouse tm ^^ Suc i) m1)
               (organic_float (ease_colour (the (targetRgb (ps ! i))) (ps ! i)))))"
    using Cons.IH [OF rest, of m1 "cv @ [draw p1]"] rec by simp
  have res: "snd (snd (snd (animate_particles W H tm m cv (p # ps)))) = p1 # ps2"
    by (simp add: upd rec)
  show ?case
  proof (intro allI impI)
    fix i assume i: "i < length (p # ps)"
    show "snd (snd (snd (animate_particles W H tm m cv (p # ps)))) ! i =
             wrap W H (relax_radius (repel ((smooth_mouse tm ^^ Suc i) m)
               (organic_float (ease_colour (the (targetRgb ((p # ps) ! i))) ((p # ps) ! i)))))"
    proof (cases i)
      case 0
      then show ?thesis unfolding res by (simp add: p1_def m1_def t)
    next
      case (Suc j)
      with i have "j < length ps" by simp
      with ih have "ps2 ! j =
             wrap W H (relax_radius (repel ((smooth_mouse tm ^^ Suc j) m1)
               (organic_float (ease_colour (the (targetRgb (ps ! j))) (ps ! j)))))"
        by blast
      moreover have "(smooth_mouse tm ^^ Suc j) m1 = (smooth_mouse tm ^^ Suc (Suc j)) m"
        by (simp add: m1_def funpow_swap1)
      ultimately show ?thesis
        using Suc by (simp only: res nth_Cons_Suc)
    qed
  qed
qed

lemma animate_particles_result:
  "particles (state_of (animate s)) =
     snd (snd (snd (animate_particles (width s) (height s) (targetMouse s) (mouse s) []
       (particles s))))"
  by (simp add: animate_def Let_def split: prod.splits option.splits)

lemma animate_eases_pointer_per_particle:
  assumes "\<forall>p\<in>set (particles s). targetRgb p \<noteq> None"
  shows "\<exists>s'. animate s = Returned s' \<and>
     length (particles s') = length (particles s) \<and>
     (\<forall>i<length (particles s).
        particles s' ! i =
          wrap (width s) (height s) (relax_radius
            (repel ((smooth_mouse (targetMouse s) ^^ Suc i) (mouse s))
               (organic_float (ease_colour (the (targetRgb (particles s ! i))) (particles s ! i))))) \<and>
        mouse_x ((smooth_mouse (targetMouse s) ^^ Suc i) (mouse s)) =
          tm_x (targetMouse s) + 0.9 ^ Suc i * (mouse_x (mouse s) - tm_x (targetMouse s)) \<and>
        mouse_y ((smooth_mouse (targetMouse s) ^^ Suc i) (mouse s)) =
          tm_y (targetMouse s) + 0.9 ^ Suc i * (mouse_y (mouse s) - tm_y (targetMouse s))) \<and>
     mouse s' = (smooth_mouse (targetMouse s) ^^ length (particles s)) (mouse s) \<and>
     mouse_x (mouse s') =
       tm_x (targetMouse s) + 0.9 ^ length (particles s) * (mouse_x (mouse s) - tm_x (targetMouse s)) \<and>
     mouse_y (mouse s') =
       tm_y (targetMouse s) + 0.9 ^ length (particles s) * (mouse_y (mouse s) - tm_y (targetMouse s))"
proof -
  from animate_ok [OF assms] obtain s' where
    a: "animate s = Returned s'"
    and len: "length (particles s') = length (particles s)"
    and m: "mouse s' = (smooth_mouse (targetMouse s) ^^ length (particles s)) (mouse s)"
    by blast
  have "particles s' = particles (state_of (animate s))"
    by (simp add: a)
  then have ps: "particles s' =
     snd (snd (snd (animate_particles (width s) (height s) (targetMouse s) (mouse s) []
       (particles s))))"
    by (simp only: animate_particles_result)
  have each: "\<forall>i<length (particles s).
        particles s' ! i =
          wrap (width s) (height s) (relax_radius
            (repel ((smooth_mouse (targetMouse s) ^^ Suc i) (mouse s))
               (organic_float (ease_colour (the (targetRgb (particles s ! i))) (particles s ! i))))) \<and>
        mouse_x ((smooth_mouse (targetMouse s) ^^ Suc i) (mouse s)) =
          tm_x (targetMouse s) + 0.9 ^ Suc i * (mouse_x (mouse s) - tm_x (targetMouse s)) \<and>
        mouse_y ((smooth_mouse (targetMouse s) ^^ Suc i) (mouse s)) =
          tm_y (targetMouse s) + 0.9 ^ Suc i * (mouse_y (mouse s) - tm_y (targetMouse s))"
    using animate_particles_each [OF assms, of "width s" "height s" "targetMouse s" "mouse s" "[]"]
      smooth_mouse_funpow
    unfolding ps by blast
  have x: "mouse_x (mouse s') =
       tm_x (targetMouse s) + 0.9 ^ length (particles s) * (mouse_x (mouse s) - tm_x (targetMouse s))"
    and y: "mouse_y (mouse s') =
       tm_y (targetMouse s) + 0.9 ^ length (particles s) * (mouse_y (mouse s) - tm_y (targetMouse s))"
    by (simp_all only: m smooth_mouse_funpow)
  from a len each m x y show ?thesis by blast
qed

text \<open>The two easings of the example state as evaluated in doubles.\<close>

lemma binary64_tenth: "binary64 0.1 = 3602879701896397 / 2 ^ 55"
  by (subst binary64_eval [where k = "- 4"])
    (simp_all add: pow2_def binary64_at_def round_ties_even_def Let_def)

lemma binary64_10: "binary64 10 = 10"
  by (subst binary64_eval [where k = 3])
    (simp_all add: pow2_def binary64_at_def round_ties_even_def Let_def)

lemma binary64_19: "binary64 19 = 19"
  by (subst binary64_eval [where k = 4])
    (simp_all add: pow2_def binary64_at_def round_ties_even_def Let_def)

lemma binary64_90: "binary64 90 = 90"
  by (subst binary64_eval [where k = 6])
    (simp_all add: pow2_def binary64_at_def round_ties_even_def Let_def)

lemma binary64_100: "binary64 100 = 100"
  by (subst binary64_eval [where k = 6])
    (simp_all add: pow2_def binary64_at_def round_ties_even_def Let_def)

lemma c1_first_step: "binary64 (100 * (3602879701896397 / 2 ^ 55)) = 10"
  by (subst binary64_eval [where k = 3])
    (simp_all add: pow2_def binary64_at_def round_ties_even_def Let_def)

lemma c1_second_step: "binary64 (90 * (3602879701896397 / 2 ^ 55)) = 9"
  by (subst binary64_eval [where k = 3])
    (simp_all add: pow2_def binary64_at_def round_ties_even_def Let_def)

lemma smooth_mouse_binary64_first:
  "smooth_mouse_binary64 \<lparr>tm_x = 100, tm_y = 0\<rparr> \<lparr>mouse_x = 0, mouse_y = 0, isActive = True\<rparr> =
     \<lparr>mouse_x = 10, mouse_y = 0, isActive = True\<rparr>"
proof -
  have x: "binary64 (0 + binary64 (binary64 (100 - 0) * binary64 0.1)) = 10"
  proof -
    have "binary64 (100 - 0) = 100" by (simp add: binary64_100)
    then have "binary64 (binary64 (100 - 0) * binary64 0.1) = 10"
      by (simp only: binary64_tenth c1_first_step)
    then show ?thesis by (simp add: binary64_10)
  qed
  have y: "binary64 (0 + binary64 (binary64 (0 - 0) * binary64 0.1)) = 0"
    by (simp add: binary64_0)
  show ?thesis
    unfolding smooth_mouse_binary64_def
    by (simp only: pointer.simps point.simps x y)
qed

lemma smooth_mouse_binary64_second:
  "smooth_mouse_binary64 \<lparr>tm_x = 100, tm_y = 0\<rparr> \<lparr>mouse_x = 10, mouse_y = 0, isActive = True\<rparr> =
     \<lparr>mouse_x = 19, mouse_y = 0, isActive = True\<rparr>"
proof -
  have x: "binary64 (10 + binary64 (binary64 (100 - 10) * binary64 0.1)) = 19"
  proof -
    have "binary64 (100 - 10) = 90" by (simp add: binary64_90)
    then have "binary64 (binary64 (100 - 10) * binary64 0.1) = 9"
      by (simp only: binary64_tenth c1_second_step)
    then show ?thesis by (simp add: binary64_19)
  qed
  have y: "binary64 (0 + binary64 (binary64 (0 - 0) * binary64 0.1)) = 0"
    by (simp add: binary64_0)
  show ?thesis
    unfolding smooth_mouse_binary64_def
    by (simp only: pointer.simps point.simps x y)
qed

text \<open>One frame of the example state: the repulsion of the first particle reads the
  pointer at 10, that of the second at 19.\<close>

lemma sqrt_100: "sqrt 100 = 10"
  by (rule real_sqrt_unique) simp_all

lemma sqrt_361: "sqrt 361 = 19"
  by (rule real_sqrt_unique) simp_all

lemma example_particle_float_plain:
  "px (organic_float example_particle) = 0"
  "py (organic_float example_particle) = 0"
  "vx (organic_float example_particle) = 0"
  "vy (organic_float example_particle) = 0"
  by (simp_all add: organic_float_def example_particle_def Let_def)

lemma velocity_wrap_relax:
  "vx (wrap W H p) = vx p" "vy (wrap W H p) = vy p"
  "vx (relax_radius p) = vx p" "vy (relax_radius p) = vy p"
  by (simp_all add: wrap_def relax_radius_def Let_def)

lemma example_repel_10:
  "vx (repel \<lparr>mouse_x = 10, mouse_y = 0, isActive = True\<rparr>
        (organic_float (ease_colour t example_particle))) = - (29 / 30)"
  by (simp add: repel_def Let_def example_particle_float_plain sqrt_100 Math_atan2_def)

lemma example_repel_19:
  "vx (repel \<lparr>mouse_x = 19, mouse_y = 0, isActive = True\<rparr>
        (organic_float (ease_colour t example_particle))) = - (281 / 300)"
  by (simp add: repel_def Let_def example_particle_float_plain sqrt_361 Math_atan2_def)

lemma animate_example:
  "\<exists>cv. animate example_sim =
     Returned (example_sim
       \<lparr>mouse := \<lparr>mouse_x = 19, mouse_y = 0, isActive = True\<rparr>,
        canvas := cv,
        particles :=
          [wrap 800 600 (relax_radius (repel \<lparr>mouse_x = 10, mouse_y = 0, isActive = True\<rparr>
             (organic_float (ease_colour \<lparr>rgb_r = 255, rgb_g = 209, rgb_b = 102\<rparr> example_particle)))),
           wrap 800 600 (relax_radius (repel \<lparr>mouse_x = 19, mouse_y = 0, isActive = True\<rparr>
             (organic_float (ease_colour \<lparr>rgb_r = 255, rgb_g = 209, rgb_b = 102\<rparr> example_particle))))]\<rparr>)"
proof -
  have t: "targetRgb example_particle = Some \<lparr>rgb_r = 255, rgb_g = 209, rgb_b = 102\<rparr>"
    by (simp add: example_particle_def)
  show ?thesis
    by (simp add: example_sim_def animate_def Particle_update_Some [OF t] smooth_mouse_def)
qed

text \<open>A frame over the pool of 150.\<close>

lemma pool_power: "(0.9 :: real) ^ PARTICLE_COUNT < 1 / 1000000"
  by (simp add: PARTICLE_COUNT_def power_divide)

lemma animate_pool_example:
  "\<exists>s'. animate (example_sim\<lparr>particles := replicate PARTICLE_COUNT example_particle\<rparr>) = Returned s' \<and>
     mouse_x (mouse s') = 100 - 100 * 0.9 ^ PARTICLE_COUNT"
proof -
  have h: "\<forall>p\<in>set (particles (example_sim\<lparr>particles := replicate PARTICLE_COUNT example_particle\<rparr>)).
      targetRgb p \<noteq> None"
    by (simp add: example_particle_def)
  from animate_ok [OF h] obtain s' where
    a: "animate (example_sim\<lparr>particles := replicate PARTICLE_COUNT example_particle\<rparr>) = Returned s'"
    and m: "mouse s' = (smooth_mouse (targetMouse example_sim) ^^ PARTICLE_COUNT) (mouse example_sim)"
    by auto
  have "mouse_x (mouse s') = 100 - 100 * 0.9 ^ PARTICLE_COUNT"
    unfolding m by (simp add: smooth_mouse_funpow example_sim_def)
  with a show ?thesis by blast
qed

text \<open>
  Claim C1 fails. The comments of \<^verbatim>\<open>update()\<close> announce a smoothed pointer, and the
  code eases it inside \<^verbatim>\<open>Particle.update\<close>, which \<^verbatim>\<open>animate\<close> calls once per
  particle: a frame over \<open>n\<close> particles eases the pointer \<open>n\<close> times, and the repulsion of
  each particle reads a different position. On the example state (two identical
  particles, the pointer at 0, the raw target at 100) the repulsion of the first
  particle reads the pointer at 10 and that of the second at 19, so the two get
  different velocities, and the frame leaves the pointer at 19 where one easing gives
  10; the pointer positions are the same as evaluated in doubles. With the pool of 150
  one frame takes the pointer from 0 to within \<open>1 / 10000\<close> of the target 100, the
  arithmetic read exactly: nothing of the smoothing is left.
\<close>

theorem pointer_eased_per_particle:
  "map mouse_x (pointer_reads (width example_sim) (height example_sim) (targetMouse example_sim)
      (mouse example_sim) (particles example_sim)) = [10, 19] \<and>
   mouse_x (smooth_mouse (targetMouse example_sim) (mouse example_sim)) = 10 \<and>
   (case animate example_sim of
      Returned s' \<Rightarrow>
        mouse s' = \<lparr>mouse_x = 19, mouse_y = 0, isActive = True\<rparr> \<and>
        particles s' =
          [wrap 800 600 (relax_radius (repel \<lparr>mouse_x = 10, mouse_y = 0, isActive = True\<rparr>
             (organic_float (ease_colour \<lparr>rgb_r = 255, rgb_g = 209, rgb_b = 102\<rparr> example_particle)))),
           wrap 800 600 (relax_radius (repel \<lparr>mouse_x = 19, mouse_y = 0, isActive = True\<rparr>
             (organic_float (ease_colour \<lparr>rgb_r = 255, rgb_g = 209, rgb_b = 102\<rparr> example_particle))))] \<and>
        map vx (particles s') = [- (29 / 30), - (281 / 300)]
    | Threw e s' \<Rightarrow> False) \<and>
   smooth_mouse_binary64 (targetMouse example_sim) (mouse example_sim) =
     \<lparr>mouse_x = 10, mouse_y = 0, isActive = True\<rparr> \<and>
   smooth_mouse_binary64 (targetMouse example_sim)
     (smooth_mouse_binary64 (targetMouse example_sim) (mouse example_sim)) =
     \<lparr>mouse_x = 19, mouse_y = 0, isActive = True\<rparr> \<and>
   (case animate (example_sim\<lparr>particles := replicate PARTICLE_COUNT example_particle\<rparr>) of
      Returned s' \<Rightarrow>
        mouse_x (mouse s') = 100 - 100 * 0.9 ^ PARTICLE_COUNT \<and>
        100 - 1 / 10000 < mouse_x (mouse s')
    | Threw e s' \<Rightarrow> False)"
proof -
  have t: "targetRgb example_particle = Some \<lparr>rgb_r = 255, rgb_g = 209, rgb_b = 102\<rparr>"
    by (simp add: example_particle_def)
  have reads: "map mouse_x (pointer_reads (width example_sim) (height example_sim)
      (targetMouse example_sim) (mouse example_sim) (particles example_sim)) = [10, 19]"
    by (simp add: example_sim_def Particle_update_Some [OF t] smooth_mouse_def)
  have once: "mouse_x (smooth_mouse (targetMouse example_sim) (mouse example_sim)) = 10"
    by (simp add: example_sim_def smooth_mouse_def)
  have frame: "(case animate example_sim of
      Returned s' \<Rightarrow>
        mouse s' = \<lparr>mouse_x = 19, mouse_y = 0, isActive = True\<rparr> \<and>
        particles s' =
          [wrap 800 600 (relax_radius (repel \<lparr>mouse_x = 10, mouse_y = 0, isActive = True\<rparr>
             (organic_float (ease_colour \<lparr>rgb_r = 255, rgb_g = 209, rgb_b = 102\<rparr> example_particle)))),
           wrap 800 600 (relax_radius (repel \<lparr>mouse_x = 19, mouse_y = 0, isActive = True\<rparr>
             (organic_float (ease_colour \<lparr>rgb_r = 255, rgb_g = 209, rgb_b = 102\<rparr> example_particle))))] \<and>
        map vx (particles s') = [- (29 / 30), - (281 / 300)]
    | Threw e s' \<Rightarrow> False)"
  proof -
    from animate_example obtain cv where
      "animate example_sim =
         Returned (example_sim
           \<lparr>mouse := \<lparr>mouse_x = 19, mouse_y = 0, isActive = True\<rparr>,
            canvas := cv,
            particles :=
              [wrap 800 600 (relax_radius (repel \<lparr>mouse_x = 10, mouse_y = 0, isActive = True\<rparr>
                 (organic_float (ease_colour \<lparr>rgb_r = 255, rgb_g = 209, rgb_b = 102\<rparr> example_particle)))),
               wrap 800 600 (relax_radius (repel \<lparr>mouse_x = 19, mouse_y = 0, isActive = True\<rparr>
                 (organic_float (ease_colour \<lparr>rgb_r = 255, rgb_g = 209, rgb_b = 102\<rparr> example_particle))))]\<rparr>)"
      by blast
    then show ?thesis
      by (simp add: velocity_wrap_relax example_repel_10 example_repel_19)
  qed
  have d1: "smooth_mouse_binary64 (targetMouse example_sim) (mouse example_sim) =
     \<lparr>mouse_x = 10, mouse_y = 0, isActive = True\<rparr>"
    using smooth_mouse_binary64_first by (simp add: example_sim_def)
  have d2: "smooth_mouse_binary64 (targetMouse example_sim)
     (smooth_mouse_binary64 (targetMouse example_sim) (mouse example_sim)) =
     \<lparr>mouse_x = 19, mouse_y = 0, isActive = True\<rparr>"
    unfolding d1 using smooth_mouse_binary64_second by (simp add: example_sim_def)
  from animate_pool_example obtain s' where
    a: "animate (example_sim\<lparr>particles := replicate PARTICLE_COUNT example_particle\<rparr>) = Returned s'"
    and x: "mouse_x (mouse s') = 100 - 100 * 0.9 ^ PARTICLE_COUNT"
    by blast
  have "100 - 1 / 10000 < mouse_x (mouse s')"
    using pool_power unfolding x by simp
  with a x have pool: "(case animate (example_sim\<lparr>particles := replicate PARTICLE_COUNT example_particle\<rparr>) of
      Returned s' \<Rightarrow>
        mouse_x (mouse s') = 100 - 100 * 0.9 ^ PARTICLE_COUNT \<and>
        100 - 1 / 10000 < mouse_x (mouse s')
    | Threw e s' \<Rightarrow> False)"
    by simp
  from reads once frame d1 d2 pool show ?thesis by blast
qed

subsection \<open>Repulsion\<close>

lemma sqrt_one_plus_ratio:
  assumes "x \<noteq> 0"
  shows "sqrt (1 + (y / x)\<^sup>2) = sqrt (x\<^sup>2 + y\<^sup>2) / \<bar>x\<bar>"
proof -
  have "1 + (y / x)\<^sup>2 = (x\<^sup>2 + y\<^sup>2) / x\<^sup>2"
    using assms by (simp add: field_simps power2_eq_square)
  then have "sqrt (1 + (y / x)\<^sup>2) = sqrt (x\<^sup>2 + y\<^sup>2) / sqrt (x\<^sup>2)"
    by (simp add: real_sqrt_divide)
  then show ?thesis by simp
qed

lemma cos_arctan_ratio:
  assumes "x \<noteq> 0"
  shows "cos (arctan (y / x)) = \<bar>x\<bar> / sqrt (x\<^sup>2 + y\<^sup>2)"
  using assms by (simp add: cos_arctan sqrt_one_plus_ratio)

lemma sin_arctan_ratio:
  assumes "x \<noteq> 0"
  shows "sin (arctan (y / x)) = (y / x) * \<bar>x\<bar> / sqrt (x\<^sup>2 + y\<^sup>2)"
  using assms by (simp add: sin_arctan sqrt_one_plus_ratio)

lemma cos_Math_atan2:
  assumes "x \<noteq> 0 \<or> y \<noteq> 0"
  shows "cos (Math_atan2 y x) = x / sqrt (x\<^sup>2 + y\<^sup>2)"
proof -
  consider "0 < x" | "x < 0" | "x = 0" "0 < y" | "x = 0" "y < 0"
    using assms by linarith
  then show ?thesis
  proof cases
    case 1
    then show ?thesis by (simp add: Math_atan2_def cos_arctan_ratio)
  next
    case 2
    then have "cos (Math_atan2 y x) = - cos (arctan (y / x))"
      by (simp add: Math_atan2_def)
    then show ?thesis using 2 by (simp add: cos_arctan_ratio)
  next
    case 3
    then show ?thesis by (simp add: Math_atan2_def)
  next
    case 4
    then show ?thesis by (simp add: Math_atan2_def)
  qed
qed

lemma sin_Math_atan2:
  assumes "x \<noteq> 0 \<or> y \<noteq> 0"
  shows "sin (Math_atan2 y x) = y / sqrt (x\<^sup>2 + y\<^sup>2)"
proof -
  consider "0 < x" | "x < 0" | "x = 0" "0 < y" | "x = 0" "y < 0"
    using assms by linarith
  then show ?thesis
  proof cases
    case 1
    then show ?thesis by (simp add: Math_atan2_def sin_arctan_ratio)
  next
    case 2
    then have "sin (Math_atan2 y x) = - sin (arctan (y / x))"
      by (simp add: Math_atan2_def)
    then show ?thesis using 2 by (simp add: sin_arctan_ratio)
  next
    case 3
    then show ?thesis by (simp add: Math_atan2_def)
  next
    case 4
    then show ?thesis by (simp add: Math_atan2_def)
  qed
qed

text \<open>At the origin \<^verbatim>\<open>Math.atan2(0, 0)\<close> is 0, so a particle exactly on the pointer is
  pushed along \<open>(-1, 0)\<close>.\<close>

lemma Math_atan2_origin: "Math_atan2 0 0 = 0"
  by (simp add: Math_atan2_def)

lemma repel_inactive: "\<not> isActive m \<Longrightarrow> repel m q = q"
  by (simp add: repel_def)

lemma repel_far:
  "300 \<le> sqrt ((mouse_x m - px q)\<^sup>2 + (mouse_y m - py q)\<^sup>2) \<Longrightarrow> repel m q = q"
  by (simp add: repel_def Let_def power2_eq_square)

lemma repel_near:
  assumes "isActive m"
    and "sqrt ((mouse_x m - px q)\<^sup>2 + (mouse_y m - py q)\<^sup>2) < 300"
  shows "vx (repel m q) = vx q -
           cos (Math_atan2 (mouse_y m - py q) (mouse_x m - px q)) *
           ((300 - sqrt ((mouse_x m - px q)\<^sup>2 + (mouse_y m - py q)\<^sup>2)) / 300) * 1"
    and "vy (repel m q) = vy q -
           sin (Math_atan2 (mouse_y m - py q) (mouse_x m - px q)) *
           ((300 - sqrt ((mouse_x m - px q)\<^sup>2 + (mouse_y m - py q)\<^sup>2)) / 300) * 1"
  using assms by (simp_all add: repel_def Let_def power2_eq_square)

lemma norm_scaled_unit:
  assumes "0 \<le> f"
  shows "sqrt ((cos a * f)\<^sup>2 + (sin a * f)\<^sup>2) = f"
proof -
  have "f\<^sup>2 * (cos a)\<^sup>2 + f\<^sup>2 * (sin a)\<^sup>2 = f\<^sup>2 * ((cos a)\<^sup>2 + (sin a)\<^sup>2)"
    by (simp only: distrib_left)
  then have "(cos a * f)\<^sup>2 + (sin a * f)\<^sup>2 = f\<^sup>2"
    by (simp add: power_mult_distrib mult.commute)
  then show ?thesis using assms by simp
qed

lemma sqrt_25: "sqrt 25 = 5"
  by (rule real_sqrt_unique) simp_all

text \<open>
  Claim C2. In one \<^verbatim>\<open>update()\<close>, with \<open>q\<close> the particle after position integration,
  \<open>m'\<close> the smoothed pointer and \<open>d\<close> their distance, the repulsion changes the
  velocity by \<open>(dvx, dvy)\<close>: nothing when the pointer is inactive; when it is active and
  \<open>d < 300\<close>, a vector of length \<open>(300 - d) / 300\<close> times the force constant 1, which for
  \<open>d > 0\<close> is that length times the unit vector from the pointer to the particle;
  nothing when \<open>d \<ge> 300\<close>.
\<close>

theorem repulsion_force:
  assumes "targetRgb p = Some t"
  shows "\<exists>p'. Particle_update W H tm m p = Inr (smooth_mouse tm m, p') \<and>
    (let q = organic_float p;
         m' = smooth_mouse tm m;
         dx = px q - mouse_x m';
         dy = py q - mouse_y m';
         d = sqrt (dx\<^sup>2 + dy\<^sup>2);
         dvx = vx p' - vx q;
         dvy = vy p' - vy q
     in (\<not> isActive m \<longrightarrow> dvx = 0 \<and> dvy = 0) \<and>
        (isActive m \<and> d < 300 \<longrightarrow>
           sqrt (dvx\<^sup>2 + dvy\<^sup>2) = (300 - d) / 300 * 1 \<and>
           (0 < d \<longrightarrow> dvx = (300 - d) / 300 * 1 * (dx / d) \<and>
                      dvy = (300 - d) / 300 * 1 * (dy / d))) \<and>
        (isActive m \<and> 300 \<le> d \<longrightarrow> dvx = 0 \<and> dvy = 0))"
proof -
  define m' where "m' = smooth_mouse tm m"
  define q' where "q' = organic_float (ease_colour t p)"
  define p' where "p' = wrap W H (relax_radius (repel m' q'))"
  define q where "q = organic_float p"
  define cx where "cx = mouse_x m' - px q"
  define cy where "cy = mouse_y m' - py q"
  define d where "d = sqrt (cx\<^sup>2 + cy\<^sup>2)"
  have upd: "Particle_update W H tm m p = Inr (smooth_mouse tm m, p')"
    using assms by (simp add: Particle_update_Some p'_def q'_def m'_def)
  have pos: "px q' = px q" "py q' = py q" "vx q' = vx q" "vy q' = vy q"
    by (simp_all add: q'_def q_def)
  have vel: "vx p' = vx (repel m' q')" "vy p' = vy (repel m' q')"
    by (simp_all add: p'_def)
  have act: "isActive m' = isActive m"
    by (simp add: m'_def)
  have d_alt: "sqrt ((px q - mouse_x m')\<^sup>2 + (py q - mouse_y m')\<^sup>2) = d"
    by (simp add: d_def cx_def cy_def power2_commute)
  have d_code: "sqrt ((mouse_x m' - px q')\<^sup>2 + (mouse_y m' - py q')\<^sup>2) = d"
    by (simp add: d_def cx_def cy_def pos)
  have inactive: "vx p' - vx q = 0 \<and> vy p' - vy q = 0" if "\<not> isActive m"
    using that by (simp add: vel repel_inactive act pos)
  have far: "vx p' - vx q = 0 \<and> vy p' - vy q = 0" if "300 \<le> d"
  proof -
    have "repel m' q' = q'"
      using that repel_far [of m' q'] unfolding d_code by simp
    then show ?thesis by (simp add: vel pos)
  qed
  have near_x: "vx p' - vx q = - (cos (Math_atan2 cy cx) * ((300 - d) / 300))"
    and near_y: "vy p' - vy q = - (sin (Math_atan2 cy cx) * ((300 - d) / 300))"
    if "isActive m" "d < 300"
    using that repel_near [of m' q', unfolded d_code act]
    by (simp_all add: vel pos cx_def cy_def)
  have magnitude:
    "sqrt ((vx p' - vx q)\<^sup>2 + (vy p' - vy q)\<^sup>2) = (300 - d) / 300 * 1"
    if "isActive m" "d < 300"
  proof -
    have "0 \<le> (300 - d) / 300" using that by simp
    from norm_scaled_unit [OF this, of "Math_atan2 cy cx"]
    show ?thesis
      using that by (simp add: near_x near_y)
  qed
  have direction:
    "vx p' - vx q = (300 - d) / 300 * 1 * ((px q - mouse_x m') / d) \<and>
     vy p' - vy q = (300 - d) / 300 * 1 * ((py q - mouse_y m') / d)"
    if "isActive m" "d < 300" "0 < d"
  proof -
    have nz: "cx \<noteq> 0 \<or> cy \<noteq> 0"
      using that(3) by (auto simp: d_def)
    have cs: "cos (Math_atan2 cy cx) = cx / d" "sin (Math_atan2 cy cx) = cy / d"
      using nz by (simp_all add: cos_Math_atan2 sin_Math_atan2 d_def)
    have away: "(px q - mouse_x m') / d = - (cx / d)" "(py q - mouse_y m') / d = - (cy / d)"
      by (simp_all add: cx_def cy_def minus_divide_left)
    have "vx p' - vx q = - (cx / d * ((300 - d) / 300))"
      using near_x [OF that(1,2)] by (simp only: cs)
    moreover have "vy p' - vy q = - (cy / d * ((300 - d) / 300))"
      using near_y [OF that(1,2)] by (simp only: cs)
    ultimately show ?thesis
      by (simp only: away) (simp add: mult.commute)
  qed
  show ?thesis
    unfolding Let_def
    apply (rule exI [of _ p'])
    unfolding q_def [symmetric] m'_def [symmetric] d_alt
    using upd inactive far magnitude direction
    by (simp add: m'_def)
qed

text \<open>The example particle at the origin, the active pointer at \<open>(3, 4)\<close>: distance 5,
  force \<open>295 / 300\<close>, directed along \<open>(-3, -4) / 5\<close>.\<close>

theorem repulsion_force_witness:
  "targetRgb (example_particle\<lparr>px := 0, py := 0\<rparr>) =
     Some \<lparr>rgb_r = 255, rgb_g = 209, rgb_b = 102\<rparr> \<and>
   isActive \<lparr>mouse_x = 3, mouse_y = 4, isActive = True\<rparr> \<and>
   (\<exists>p'. Particle_update 800 600 \<lparr>tm_x = 3, tm_y = 4\<rparr>
            \<lparr>mouse_x = 3, mouse_y = 4, isActive = True\<rparr> (example_particle\<lparr>px := 0, py := 0\<rparr>) =
            Inr (\<lparr>mouse_x = 3, mouse_y = 4, isActive = True\<rparr>, p') \<and>
         vx p' = - (59 / 100) \<and> vy p' = - (59 / 75))"
proof -
  have sm: "smooth_mouse \<lparr>tm_x = 3, tm_y = 4\<rparr> \<lparr>mouse_x = 3, mouse_y = 4, isActive = True\<rparr> =
          \<lparr>mouse_x = 3, mouse_y = 4, isActive = True\<rparr>"
    by (simp add: smooth_mouse_def)
  have t: "targetRgb (example_particle\<lparr>px := 0, py := 0\<rparr>) =
      Some \<lparr>rgb_r = 255, rgb_g = 209, rgb_b = 102\<rparr>"
    by (rule example_particle_target)
  from repulsion_force [OF t, where W = 800 and H = 600 and tm = "\<lparr>tm_x = 3, tm_y = 4\<rparr>"
      and m = "\<lparr>mouse_x = 3, mouse_y = 4, isActive = True\<rparr>"]
  show ?thesis
    by (simp add: Let_def sm example_particle_float example_particle_target sqrt_25) blast
qed

subsection \<open>Boundary wrap\<close>

lemma wrap_x:
  "px (wrap W H p) =
     (if px p < - (radius p * 2) then
        (if W + radius p * 2 > W + radius p * 2 then - (radius p * 2) else W + radius p * 2)
      else if px p > W + radius p * 2 then - (radius p * 2) else px p)"
  by (simp add: wrap_def Let_def)

lemma wrap_y:
  "py (wrap W H p) =
     (if py p < - (radius p * 2) then
        (if H + radius p * 2 > H + radius p * 2 then - (radius p * 2) else H + radius p * 2)
      else if py p > H + radius p * 2 then - (radius p * 2) else py p)"
  by (simp add: wrap_def Let_def)

text \<open>
  Claim C3. In one \<^verbatim>\<open>update()\<close>, with \<open>q\<close> the particle after position integration
  and \<open>buffer\<close> twice the radius the update leaves: \<open>x > width + buffer\<close> is relocated
  to \<open>- buffer\<close>, \<open>x < - buffer\<close> to \<open>width + buffer\<close>, and likewise \<open>y\<close> against the
  height; a coordinate within the bounds is kept. The surface has non-negative size and
  the radii are non-negative, as \<^verbatim>\<open>resize\<close> and \<^verbatim>\<open>reset\<close> leave them; the radius stays
  what it was when it equals the base radius.
\<close>

theorem wrap_relocates:
  assumes "targetRgb p = Some t"
    and "0 \<le> W" and "0 \<le> H" and "0 \<le> radius p" and "0 \<le> baseRadius p"
  shows "\<exists>p'. Particle_update W H tm m p = Inr (smooth_mouse tm m, p') \<and>
    (let q = organic_float p; buffer = 2 * radius p'
     in (W + buffer < px q \<longrightarrow> px p' = - buffer) \<and>
        (px q < - buffer \<longrightarrow> px p' = W + buffer) \<and>
        (H + buffer < py q \<longrightarrow> py p' = - buffer) \<and>
        (py q < - buffer \<longrightarrow> py p' = H + buffer) \<and>
        (- buffer \<le> px q \<and> px q \<le> W + buffer \<longrightarrow> px p' = px q) \<and>
        (- buffer \<le> py q \<and> py q \<le> H + buffer \<longrightarrow> py p' = py q) \<and>
        radius p' = radius p + (baseRadius p - radius p) * 0.05 \<and>
        (baseRadius p = radius p \<longrightarrow> radius p' = radius p))"
proof -
  define m' where "m' = smooth_mouse tm m"
  define r where "r = relax_radius (repel m' (organic_float (ease_colour t p)))"
  define p' where "p' = wrap W H r"
  have upd: "Particle_update W H tm m p = Inr (smooth_mouse tm m, p')"
    using assms(1) by (simp add: Particle_update_Some p'_def r_def m'_def)
  have pos: "px r = px (organic_float p)" "py r = py (organic_float p)"
    by (simp_all add: r_def)
  have rad: "radius r = radius p + (baseRadius p - radius p) * 0.05"
    by (simp add: r_def relax_radius_def)
  have rad': "radius p' = radius r"
    by (simp add: p'_def)
  have "radius r = (19 * radius p + baseRadius p) / 20"
    by (simp add: rad field_simps)
  then have nonneg: "0 \<le> radius r"
    using assms(4,5) by simp
  have x: "px p' =
     (if px r < - (radius r * 2) then W + radius r * 2
      else if px r > W + radius r * 2 then - (radius r * 2) else px r)"
    by (simp add: p'_def wrap_x)
  have y: "py p' =
     (if py r < - (radius r * 2) then H + radius r * 2
      else if py r > H + radius r * 2 then - (radius r * 2) else py r)"
    by (simp add: p'_def wrap_y)
  show ?thesis
    unfolding Let_def
    apply (rule exI [of _ p'])
    using upd nonneg assms(2,3)
    by (simp add: x y rad' pos [symmetric]) (simp add: rad)
qed

text \<open>The example particle at \<open>(900, -100)\<close> on an 800 by 600 surface, radius 40.\<close>

theorem wrap_relocates_witness:
  "targetRgb (example_particle\<lparr>px := 900, py := - 100\<rparr>) =
     Some \<lparr>rgb_r = 255, rgb_g = 209, rgb_b = 102\<rparr> \<and>
   (0::real) \<le> 800 \<and> (0::real) \<le> 600 \<and>
   0 \<le> radius (example_particle\<lparr>px := 900, py := - 100\<rparr>) \<and>
   0 \<le> baseRadius (example_particle\<lparr>px := 900, py := - 100\<rparr>) \<and>
   (\<exists>p'. Particle_update 800 600 \<lparr>tm_x = 3, tm_y = 4\<rparr>
            \<lparr>mouse_x = 3, mouse_y = 4, isActive = False\<rparr> (example_particle\<lparr>px := 900, py := - 100\<rparr>) =
            Inr (\<lparr>mouse_x = 3, mouse_y = 4, isActive = False\<rparr>, p') \<and>
         radius p' = 40 \<and> px p' = - 80 \<and> py p' = 680)"
proof -
  have sm: "smooth_mouse \<lparr>tm_x = 3, tm_y = 4\<rparr> \<lparr>mouse_x = 3, mouse_y = 4, isActive = False\<rparr> =
          \<lparr>mouse_x = 3, mouse_y = 4, isActive = False\<rparr>"
    by (simp add: smooth_mouse_def)
  have r: "radius example_particle = 40" "baseRadius example_particle = 40"
    by (simp_all add: example_particle_def)
  have t: "targetRgb (example_particle\<lparr>px := 900, py := - 100\<rparr>) =
      Some \<lparr>rgb_r = 255, rgb_g = 209, rgb_b = 102\<rparr>"
    by (rule example_particle_target)
  from wrap_relocates [OF t, where W = 800 and H = 600 and tm = "\<lparr>tm_x = 3, tm_y = 4\<rparr>"
      and m = "\<lparr>mouse_x = 3, mouse_y = 4, isActive = False\<rparr>"]
  show ?thesis
    by (simp add: Let_def sm example_particle_float example_particle_target r) fastforce
qed

subsection \<open>Colour easing over frames\<close>

text \<open>One eased channel.\<close>

lemma lerp_gap: "lerp c t lerpSpeed - t = 0.95 * (c - t)"
  by (simp add: lerp_def lerpSpeed_def algebra_simps)

lemma lerp_fixed: "lerp t t lerpSpeed = t"
  by (simp add: lerp_def algebra_simps)

lemma ease_colour_Some:
  "currentRgb p = Some c \<Longrightarrow>
   currentRgb (ease_colour t p) =
     Some \<lparr>rgb_r = lerp (rgb_r c) (rgb_r t) lerpSpeed,
           rgb_g = lerp (rgb_g c) (rgb_g t) lerpSpeed,
           rgb_b = lerp (rgb_b c) (rgb_b t) lerpSpeed\<rparr>"
  by (simp add: ease_colour_def)

lemma abs_lerp_gap: "\<bar>lerp c t lerpSpeed - t\<bar> = 0.95 * \<bar>c - t\<bar>"
proof -
  have "\<bar>lerp c t lerpSpeed - t\<bar> = \<bar>0.95 * (c - t)\<bar>"
    by (simp only: lerp_gap)
  also have "\<dots> = \<bar>0.95\<bar> * \<bar>c - t\<bar>"
    by (rule abs_mult)
  finally show ?thesis by simp
qed

text \<open>
  Claim C8, as amended. With the arithmetic read exactly: over \<open>N\<close> frames (no mood
  change in between), every channel of every particle's current colour satisfies
  \<open>|current - target| \<le> |initial - target| * 0.95 ^ N\<close>, and a current colour equal to
  its target stays equal to it. The frames do not throw when no particle has a
  \<^verbatim>\<open>null\<close> target.
\<close>

theorem colour_easing_converges:
  assumes "\<forall>p\<in>set (particles s). targetRgb p \<noteq> None"
  shows "\<exists>s'. frames N s = Returned s' \<and>
          length (particles s') = length (particles s) \<and>
          (\<forall>i<length (particles s). \<forall>c t.
             currentRgb (particles s ! i) = Some c \<and> targetRgb (particles s ! i) = Some t \<longrightarrow>
             (\<exists>c'. currentRgb (particles s' ! i) = Some c' \<and>
                    targetRgb (particles s' ! i) = Some t \<and>
                    \<bar>rgb_r c' - rgb_r t\<bar> \<le> \<bar>rgb_r c - rgb_r t\<bar> * 0.95 ^ N \<and>
                    \<bar>rgb_g c' - rgb_g t\<bar> \<le> \<bar>rgb_g c - rgb_g t\<bar> * 0.95 ^ N \<and>
                    \<bar>rgb_b c' - rgb_b t\<bar> \<le> \<bar>rgb_b c - rgb_b t\<bar> * 0.95 ^ N \<and>
                    (c = t \<longrightarrow> c' = t)))"
  using assms
proof (induction N arbitrary: s)
  case 0
  show ?case by simp
next
  case (Suc N)
  from animate_ok [OF Suc.prems]
  obtain s1 where
    a: "animate s = Returned s1"
    and len1: "length (particles s1) = length (particles s)"
    and col1: "\<forall>i<length (particles s).
             targetRgb (particles s1 ! i) = targetRgb (particles s ! i) \<and>
             currentRgb (particles s1 ! i) =
               currentRgb (ease_colour (the (targetRgb (particles s ! i))) (particles s ! i))"
    by blast
  have tg1: "\<forall>p\<in>set (particles s1). targetRgb p \<noteq> None"
  proof
    fix p assume "p \<in> set (particles s1)"
    then obtain i where i: "i < length (particles s1)" "p = particles s1 ! i"
      by (auto simp: in_set_conv_nth)
    then have "targetRgb p = targetRgb (particles s ! i)"
      using col1 len1 by simp
    moreover have "particles s ! i \<in> set (particles s)"
      using i len1 by simp
    ultimately show "targetRgb p \<noteq> None"
      using Suc.prems by simp
  qed
  from Suc.IH [OF tg1]
  obtain s' where
    f: "frames N s1 = Returned s'"
    and len': "length (particles s') = length (particles s1)"
    and col': "\<forall>i<length (particles s1). \<forall>c t.
             currentRgb (particles s1 ! i) = Some c \<and> targetRgb (particles s1 ! i) = Some t \<longrightarrow>
             (\<exists>c'. currentRgb (particles s' ! i) = Some c' \<and>
                    targetRgb (particles s' ! i) = Some t \<and>
                    \<bar>rgb_r c' - rgb_r t\<bar> \<le> \<bar>rgb_r c - rgb_r t\<bar> * 0.95 ^ N \<and>
                    \<bar>rgb_g c' - rgb_g t\<bar> \<le> \<bar>rgb_g c - rgb_g t\<bar> * 0.95 ^ N \<and>
                    \<bar>rgb_b c' - rgb_b t\<bar> \<le> \<bar>rgb_b c - rgb_b t\<bar> * 0.95 ^ N \<and>
                    (c = t \<longrightarrow> c' = t))"
    by blast
  have run: "frames (Suc N) s = Returned s'"
    by (simp add: a f)
  have "\<exists>c'. currentRgb (particles s' ! i) = Some c' \<and>
                    targetRgb (particles s' ! i) = Some t \<and>
                    \<bar>rgb_r c' - rgb_r t\<bar> \<le> \<bar>rgb_r c - rgb_r t\<bar> * 0.95 ^ Suc N \<and>
                    \<bar>rgb_g c' - rgb_g t\<bar> \<le> \<bar>rgb_g c - rgb_g t\<bar> * 0.95 ^ Suc N \<and>
                    \<bar>rgb_b c' - rgb_b t\<bar> \<le> \<bar>rgb_b c - rgb_b t\<bar> * 0.95 ^ Suc N \<and>
                    (c = t \<longrightarrow> c' = t)"
    if i: "i < length (particles s)"
      and c: "currentRgb (particles s ! i) = Some c"
      and t: "targetRgb (particles s ! i) = Some t" for i c t
  proof -
    define c1 where "c1 = \<lparr>rgb_r = lerp (rgb_r c) (rgb_r t) lerpSpeed,
           rgb_g = lerp (rgb_g c) (rgb_g t) lerpSpeed,
           rgb_b = lerp (rgb_b c) (rgb_b t) lerpSpeed\<rparr>"
    have c1: "currentRgb (particles s1 ! i) = Some c1"
      using col1 i t ease_colour_Some [OF c, of t] by (simp add: c1_def)
    have t1: "targetRgb (particles s1 ! i) = Some t"
      using col1 i t by simp
    have "i < length (particles s1)" using i len1 by simp
    from col' [rule_format, OF this, of c1 t] c1 t1 obtain c' where
      c': "currentRgb (particles s' ! i) = Some c'" "targetRgb (particles s' ! i) = Some t"
      and r: "\<bar>rgb_r c' - rgb_r t\<bar> \<le> \<bar>rgb_r c1 - rgb_r t\<bar> * 0.95 ^ N"
      and g: "\<bar>rgb_g c' - rgb_g t\<bar> \<le> \<bar>rgb_g c1 - rgb_g t\<bar> * 0.95 ^ N"
      and b: "\<bar>rgb_b c' - rgb_b t\<bar> \<le> \<bar>rgb_b c1 - rgb_b t\<bar> * 0.95 ^ N"
      and fx: "c1 = t \<longrightarrow> c' = t"
      by blast
    have gr: "\<bar>rgb_r c1 - rgb_r t\<bar> = 0.95 * \<bar>rgb_r c - rgb_r t\<bar>"
      and gg: "\<bar>rgb_g c1 - rgb_g t\<bar> = 0.95 * \<bar>rgb_g c - rgb_g t\<bar>"
      and gb: "\<bar>rgb_b c1 - rgb_b t\<bar> = 0.95 * \<bar>rgb_b c - rgb_b t\<bar>"
      by (simp_all add: c1_def abs_lerp_gap)
    have "c = t \<longrightarrow> c1 = t"
      by (simp add: c1_def lerp_fixed)
    with fx have "c = t \<longrightarrow> c' = t" by blast
    moreover have "\<bar>rgb_r c' - rgb_r t\<bar> \<le> \<bar>rgb_r c - rgb_r t\<bar> * 0.95 ^ Suc N"
      using r gr by (simp add: mult.commute mult.left_commute)
    moreover have "\<bar>rgb_g c' - rgb_g t\<bar> \<le> \<bar>rgb_g c - rgb_g t\<bar> * 0.95 ^ Suc N"
      using g gg by (simp add: mult.commute mult.left_commute)
    moreover have "\<bar>rgb_b c' - rgb_b t\<bar> \<le> \<bar>rgb_b c - rgb_b t\<bar> * 0.95 ^ Suc N"
      using b gb by (simp add: mult.commute mult.left_commute)
    ultimately show ?thesis
      using c' by blast
  qed
  then have "\<forall>i<length (particles s). \<forall>c t.
             currentRgb (particles s ! i) = Some c \<and> targetRgb (particles s ! i) = Some t \<longrightarrow>
             (\<exists>c'. currentRgb (particles s' ! i) = Some c' \<and>
                    targetRgb (particles s' ! i) = Some t \<and>
                    \<bar>rgb_r c' - rgb_r t\<bar> \<le> \<bar>rgb_r c - rgb_r t\<bar> * 0.95 ^ Suc N \<and>
                    \<bar>rgb_g c' - rgb_g t\<bar> \<le> \<bar>rgb_g c - rgb_g t\<bar> * 0.95 ^ Suc N \<and>
                    \<bar>rgb_b c' - rgb_b t\<bar> \<le> \<bar>rgb_b c - rgb_b t\<bar> * 0.95 ^ Suc N \<and>
                    (c = t \<longrightarrow> c' = t))"
    by blast
  moreover have "length (particles s') = length (particles s)"
    using len' len1 by simp
  ultimately show ?case
    using run by blast
qed

text \<open>Two frames of the example state: the first particle, from black towards
  \<open>(255, 209, 102)\<close>.\<close>

theorem colour_easing_converges_witness:
  "targetRgb example_particle \<noteq> None \<and>
   (\<exists>s' c'. frames 2 example_sim = Returned s' \<and>
      currentRgb (particles s' ! 0) = Some c' \<and>
      \<bar>rgb_r c' - 255\<bar> \<le> 255 * 0.95 ^ 2 \<and>
      \<bar>rgb_g c' - 209\<bar> \<le> 209 * 0.95 ^ 2 \<and>
      \<bar>rgb_b c' - 102\<bar> \<le> 102 * 0.95 ^ 2)"
proof -
  have h: "\<forall>p\<in>set (particles example_sim). targetRgb p \<noteq> None"
    by (simp add: example_sim_def example_particle_def)
  from colour_easing_converges [OF h, of 2] obtain s' where
    f: "frames 2 example_sim = Returned s'"
    and col: "\<forall>i<length (particles example_sim). \<forall>c t.
             currentRgb (particles example_sim ! i) = Some c \<and>
             targetRgb (particles example_sim ! i) = Some t \<longrightarrow>
             (\<exists>c'. currentRgb (particles s' ! i) = Some c' \<and>
                    targetRgb (particles s' ! i) = Some t \<and>
                    \<bar>rgb_r c' - rgb_r t\<bar> \<le> \<bar>rgb_r c - rgb_r t\<bar> * 0.95 ^ 2 \<and>
                    \<bar>rgb_g c' - rgb_g t\<bar> \<le> \<bar>rgb_g c - rgb_g t\<bar> * 0.95 ^ 2 \<and>
                    \<bar>rgb_b c' - rgb_b t\<bar> \<le> \<bar>rgb_b c - rgb_b t\<bar> * 0.95 ^ 2 \<and>
                    (c = t \<longrightarrow> c' = t))"
    by blast
  have "0 < length (particles example_sim)"
    by (simp add: example_sim_def)
  from col [rule_format, OF this, of "\<lparr>rgb_r = 0, rgb_g = 0, rgb_b = 0\<rparr>"
      "\<lparr>rgb_r = 255, rgb_g = 209, rgb_b = 102\<rparr>"]
  obtain c' where "currentRgb (particles s' ! 0) = Some c'"
    "\<bar>rgb_r c' - 255\<bar> \<le> 255 * 0.95 ^ 2"
    "\<bar>rgb_g c' - 209\<bar> \<le> 209 * 0.95 ^ 2"
    "\<bar>rgb_b c' - 102\<bar> \<le> 102 * 0.95 ^ 2"
    by (auto simp: example_sim_def example_particle_def)
  with f show ?thesis
    by (auto simp: example_particle_def)
qed

text \<open>
  Claim C8 as stated fails in doubles: one easing step of the channel 102 (the blue of
  \<^verbatim>\<open>#FFD166\<close>) towards the target 102 gives \<open>102 - 2 ^ - 46\<close>, printed
  101.99999999999999: the target is not a fixed point, and the gap grows from 0.
\<close>

theorem colour_easing_counterexample:
  "binary64 102 = 102 \<and>
   lerp_binary64 102 102 (binary64 lerpSpeed) = 102 - 1 / 2 ^ 46 \<and>
   lerp_binary64 102 102 (binary64 lerpSpeed) \<noteq> 102 \<and>
   \<not> \<bar>lerp_binary64 102 102 (binary64 lerpSpeed) - 102\<bar> \<le> \<bar>102 - 102\<bar> * 0.95 ^ 1"
  by (simp only: binary64_102 lerp_binary64_102) simp

subsection \<open>Registry and colour picking\<close>

lemma PALETTES_keys: "map fst PALETTES = [''joy'', ''serenity'', ''energy'', ''melancholy'', ''mystery'']"
  by (simp add: PALETTES_def)

lemma PALETTES_colours_well_formed:
  "\<forall>pal\<in>snd ` set PALETTES. \<forall>c\<in>set (bg pal # colors pal).
     length c = 7 \<and> hd c = CHR ''#'' \<and> list_all is_hex (tl c)"
  by (simp add: PALETTES_def is_hex_def)

lemma registry_colour:
  assumes "map_of PALETTES key = Some pal" and "c \<in> set (bg pal # colors pal)"
  shows "length c = 7 \<and> hd c = CHR ''#'' \<and> list_all is_hex (tl c)"
proof -
  from assms(1) have "(key, pal) \<in> set PALETTES" by (rule map_of_SomeD)
  then have "pal \<in> snd ` set PALETTES" by force
  with PALETTES_colours_well_formed assms(2) show ?thesis by blast
qed

lemma hash_six_well_formed:
  assumes "length c = 7 \<and> hd c = CHR ''#'' \<and> list_all is_hex (tl c)"
  shows "well_formed_hex c"
proof (cases c)
  case Nil
  with assms show ?thesis by simp
next
  case (Cons a ds)
  with assms show ?thesis
    by (simp add: well_formed_hex_def hex_digits_3_or_6_def)
qed

lemma registry_colour_parses:
  assumes "map_of PALETTES key = Some pal" and "c \<in> set (bg pal # colors pal)"
  shows "hexToRgb c \<noteq> None"
  using registry_colour [OF assms] hash_six_well_formed hexToRgb_None_iff by blast

lemma registry_colors_length:
  assumes "map_of PALETTES key = Some pal"
  shows "length (colors pal) = 5"
proof -
  have "\<forall>pal\<in>snd ` set PALETTES. length (colors pal) = 5"
    by (simp add: PALETTES_def)
  moreover from assms have "(key, pal) \<in> set PALETTES" by (rule map_of_SomeD)
  then have "pal \<in> snd ` set PALETTES" by force
  ultimately show ?thesis by blast
qed

lemma PALETTES_get_Own:
  "PALETTES_get key = Some (Own pal) \<longleftrightarrow> map_of PALETTES key = Some pal"
  by (auto simp: PALETTES_get_def split: option.splits)

lemma PALETTES_get_registered:
  "map_of PALETTES key = Some pal \<Longrightarrow> PALETTES_get key = Some (Own pal)"
  by (simp add: PALETTES_get_def)

lemma PALETTES_get_registry_entry:
  "PALETTES_get key = Some cp \<Longrightarrow> registry_entry cp"
proof (cases cp)
  case Inherited
  then show ?thesis by (simp add: registry_entry_def)
next
  case (Own pal)
  assume "PALETTES_get key = Some cp"
  with Own have "map_of PALETTES key = Some pal"
    by (simp add: PALETTES_get_Own)
  then have "(key, pal) \<in> set PALETTES" by (rule map_of_SomeD)
  then have "pal \<in> snd ` set PALETTES" by force
  with Own show ?thesis by (simp add: registry_entry_def)
qed

lemma registry_entry_colour_parses:
  assumes "registry_entry (Own pal)" and "c \<in> set (colors pal)"
  shows "hexToRgb c \<noteq> None"
proof -
  from assms(1) have "pal \<in> snd ` set PALETTES"
    by (simp add: registry_entry_def)
  with PALETTES_colours_well_formed assms(2)
  have "length c = 7 \<and> hd c = CHR ''#'' \<and> list_all is_hex (tl c)"
    by fastforce
  then show ?thesis
    using hash_six_well_formed hexToRgb_None_iff by blast
qed

lemma unit_interval_shift: "unit_interval g \<Longrightarrow> unit_interval (\<lambda>n. g (Suc n))"
  by (simp add: unit_interval_def)

lemma floor_index:
  assumes "0 \<le> u" and "u < 1" and "0 < n"
  shows "0 \<le> \<lfloor>u * real n\<rfloor> \<and> \<lfloor>u * real n\<rfloor> < int n"
proof -
  have "0 \<le> u * real n" using assms by simp
  then have lo: "0 \<le> \<lfloor>u * real n\<rfloor>" by simp
  have "u * real n < 1 * real n"
    using assms by (intro mult_strict_right_mono) simp_all
  then have "u * real n < real_of_int (int n)" by simp
  then have "\<lfloor>u * real n\<rfloor> < int n" by (simp only: floor_less_iff)
  with lo show ?thesis by simp
qed

lemma nth_floor_mem:
  assumes "0 \<le> (x::real)" and "\<lfloor>x\<rfloor> < int (length xs)"
  shows "xs ! nat \<lfloor>x\<rfloor> \<in> set xs"
proof -
  have "0 \<le> \<lfloor>x\<rfloor>" using assms(1) by simp
  then have "nat \<lfloor>x\<rfloor> < length xs" using assms(2) by linarith
  then show ?thesis by simp
qed

lemma pickColor_Inherited: "pickColor Inherited g = (Inl TypeError, \<lambda>n. g (Suc n))"
  by (simp add: pickColor_def Math_random_def)

lemma pickColor_Own_cases:
  "(\<exists>c\<in>set (colors pal). pickColor (Own pal) g = (Inr (Some c), \<lambda>n. g (Suc n))) \<or>
   pickColor (Own pal) g = (Inr None, \<lambda>n. g (Suc n))"
  by (simp add: pickColor_def Math_random_def Let_def nth_floor_mem)

lemma pickColor_Own_unit:
  assumes "0 \<le> g 0" and "g 0 < 1" and "colors pal \<noteq> []"
  shows "\<exists>c\<in>set (colors pal). pickColor (Own pal) g = (Inr (Some c), \<lambda>n. g (Suc n))"
proof -
  have "0 < length (colors pal)" using assms(3) by simp
  from floor_index [OF assms(1,2) this]
  show ?thesis
    by (simp add: pickColor_def Math_random_def Let_def nth_floor_mem)
qed

lemma pickColor_registry_parses:
  assumes "pickColor cp g = (Inr (Some c), g')" and "registry_entry cp"
  shows "hexToRgb c \<noteq> None"
proof (cases cp)
  case Inherited
  with assms(1) show ?thesis by (simp add: pickColor_Inherited)
next
  case (Own pal)
  from pickColor_Own_cases [of pal g] assms(1) have "c \<in> set (colors pal)"
    unfolding Own by auto
  with assms(2) show ?thesis
    unfolding Own by (rule registry_entry_colour_parses)
qed

lemma example_unit_interval: "unit_interval (rand example_sim)"
  by (simp add: example_sim_def unit_interval_def)

lemma serenity_registered:
  "map_of PALETTES ''serenity'' =
     Some \<lparr>name = ''Serenity'',
           colors = [''#E0F7FA'', ''#B2EBF2'', ''#80DEEA'', ''#4DD0E1'', ''#26C6DA''],
           bg = ''#001a1a''\<rparr>"
  by (simp add: PALETTES_def)

subsection \<open>Mood switch\<close>

lemma repick_Own_unit:
  assumes "unit_interval g" and "colors pal \<noteq> []"
  shows "\<exists>g' ps'. repick (Own pal) g ps = (None, g', ps') \<and> unit_interval g' \<and>
           length ps' = length ps \<and>
           (\<forall>i<length ps. \<exists>c\<in>set (colors pal). ps' ! i = (ps ! i)\<lparr>targetRgb := hexToRgb c\<rparr>)"
  using assms(1)
proof (induction ps arbitrary: g)
  case Nil
  then show ?case by simp
next
  case (Cons p ps)
  from Cons.prems have "0 \<le> g 0" "g 0 < 1"
    by (simp_all add: unit_interval_def)
  with pickColor_Own_unit [of g pal] assms(2) obtain c where
    c: "c \<in> set (colors pal)"
    and pick: "pickColor (Own pal) g = (Inr (Some c), \<lambda>n. g (Suc n))"
    by blast
  from Cons.prems have "unit_interval (\<lambda>n. g (Suc n))"
    by (rule unit_interval_shift)
  from Cons.IH [OF this] obtain g' ps' where
    rec: "repick (Own pal) (\<lambda>n. g (Suc n)) ps = (None, g', ps')"
    and u: "unit_interval g'"
    and len: "length ps' = length ps"
    and tg: "\<forall>i<length ps. \<exists>c\<in>set (colors pal). ps' ! i = (ps ! i)\<lparr>targetRgb := hexToRgb c\<rparr>"
    by blast
  have res: "repick (Own pal) g (p # ps) = (None, g', p\<lparr>targetRgb := hexToRgb c\<rparr> # ps')"
    by (simp add: pick rec)
  have "\<exists>c'\<in>set (colors pal).
          (p\<lparr>targetRgb := hexToRgb c\<rparr> # ps') ! i = ((p # ps) ! i)\<lparr>targetRgb := hexToRgb c'\<rparr>"
    if "i < length (p # ps)" for i
    using that c tg by (cases i) auto
  with res u len show ?case by simp
qed

lemma repick_Inherited:
  "repick Inherited g (p # ps) = (Some TypeError, \<lambda>n. g (Suc n), p # ps)"
  by (simp add: pickColor_Inherited)

lemma repick_targets_not_null:
  assumes "registry_entry cp" and "\<forall>p\<in>set ps. targetRgb p \<noteq> None"
  shows "\<forall>p\<in>set (snd (snd (repick cp g ps))). targetRgb p \<noteq> None"
  using assms(2)
proof (induction ps arbitrary: g)
  case Nil
  then show ?case by simp
next
  case (Cons p ps)
  show ?case
  proof (cases cp)
    case Inherited
    with Cons.prems show ?thesis
      unfolding Inherited repick_Inherited by simp
  next
    case (Own pal)
    from Cons.prems have rest: "\<forall>q\<in>set ps. targetRgb q \<noteq> None" by simp
    note ih = Cons.IH [OF rest, of "\<lambda>n. g (Suc n)"]
    from pickColor_Own_cases [of pal g] show ?thesis
    proof
      assume "\<exists>c\<in>set (colors pal). pickColor (Own pal) g = (Inr (Some c), \<lambda>n. g (Suc n))"
      then obtain c where c: "c \<in> set (colors pal)"
        and pick: "pickColor (Own pal) g = (Inr (Some c), \<lambda>n. g (Suc n))"
        by blast
      have "hexToRgb c \<noteq> None"
        using assms(1) c unfolding Own by (rule registry_entry_colour_parses)
      then show ?thesis
        using ih by (simp add: Own pick split: prod.splits)
    next
      assume "pickColor (Own pal) g = (Inr None, \<lambda>n. g (Suc n))"
      then show ?thesis
        using Cons.prems by (simp add: Own)
    qed
  qed
qed

lemma setMood_unknown:
  "PALETTES_get moodKey = None \<Longrightarrow> setMood moodKey s = Returned s"
  by (simp add: setMood_def)

lemma setMood_targets_not_null:
  assumes "\<forall>p\<in>set (particles s). targetRgb p \<noteq> None"
  shows "\<forall>p\<in>set (particles (state_of (setMood key s))). targetRgb p \<noteq> None"
proof (cases "PALETTES_get key")
  case None
  with assms show ?thesis by (simp add: setMood_unknown)
next
  case (Some cp)
  then have reg: "registry_entry cp" by (rule PALETTES_get_registry_entry)
  obtain err g' ps' where rp: "repick cp (rand s) (particles s) = (err, g', ps')"
    by (cases "repick cp (rand s) (particles s)")
  from repick_targets_not_null [OF reg assms, of "rand s"] rp
  have ps': "\<forall>p\<in>set ps'. targetRgb p \<noteq> None" by simp
  have "particles (state_of (setMood key s)) = ps'"
    by (simp add: setMood_def Some rp Let_def split: option.splits entry.splits)
  with ps' show ?thesis by simp
qed

text \<open>The frames after a mood switch, with the arithmetic read exactly: \<open>N\<close> frames
  multiply every channel's distance to its target by \<open>0.95 ^ N\<close>, so the current colour
  tends to the target and, unless it started there, never equals it.\<close>

lemma frames_colour_exact:
  assumes "\<forall>p\<in>set (particles s). targetRgb p \<noteq> None"
  shows "\<exists>s'. frames N s = Returned s' \<and>
          length (particles s') = length (particles s) \<and>
          (\<forall>i<length (particles s). \<forall>c t.
             currentRgb (particles s ! i) = Some c \<and> targetRgb (particles s ! i) = Some t \<longrightarrow>
             (\<exists>c'. currentRgb (particles s' ! i) = Some c' \<and>
                    targetRgb (particles s' ! i) = Some t \<and>
                    rgb_r c' - rgb_r t = 0.95 ^ N * (rgb_r c - rgb_r t) \<and>
                    rgb_g c' - rgb_g t = 0.95 ^ N * (rgb_g c - rgb_g t) \<and>
                    rgb_b c' - rgb_b t = 0.95 ^ N * (rgb_b c - rgb_b t)))"
  using assms
proof (induction N arbitrary: s)
  case 0
  show ?case by simp
next
  case (Suc N)
  from animate_ok [OF Suc.prems]
  obtain s1 where
    a: "animate s = Returned s1"
    and len1: "length (particles s1) = length (particles s)"
    and col1: "\<forall>i<length (particles s).
             targetRgb (particles s1 ! i) = targetRgb (particles s ! i) \<and>
             currentRgb (particles s1 ! i) =
               currentRgb (ease_colour (the (targetRgb (particles s ! i))) (particles s ! i))"
    by blast
  have tg1: "\<forall>p\<in>set (particles s1). targetRgb p \<noteq> None"
  proof
    fix p assume "p \<in> set (particles s1)"
    then obtain i where i: "i < length (particles s1)" "p = particles s1 ! i"
      by (auto simp: in_set_conv_nth)
    then have "targetRgb p = targetRgb (particles s ! i)"
      using col1 len1 by simp
    moreover have "particles s ! i \<in> set (particles s)"
      using i len1 by simp
    ultimately show "targetRgb p \<noteq> None"
      using Suc.prems by simp
  qed
  from Suc.IH [OF tg1]
  obtain s' where
    f: "frames N s1 = Returned s'"
    and len': "length (particles s') = length (particles s1)"
    and col': "\<forall>i<length (particles s1). \<forall>c t.
             currentRgb (particles s1 ! i) = Some c \<and> targetRgb (particles s1 ! i) = Some t \<longrightarrow>
             (\<exists>c'. currentRgb (particles s' ! i) = Some c' \<and>
                    targetRgb (particles s' ! i) = Some t \<and>
                    rgb_r c' - rgb_r t = 0.95 ^ N * (rgb_r c - rgb_r t) \<and>
                    rgb_g c' - rgb_g t = 0.95 ^ N * (rgb_g c - rgb_g t) \<and>
                    rgb_b c' - rgb_b t = 0.95 ^ N * (rgb_b c - rgb_b t))"
    by blast
  have run: "frames (Suc N) s = Returned s'"
    by (simp add: a f)
  have "\<exists>c'. currentRgb (particles s' ! i) = Some c' \<and>
                    targetRgb (particles s' ! i) = Some t \<and>
                    rgb_r c' - rgb_r t = 0.95 ^ Suc N * (rgb_r c - rgb_r t) \<and>
                    rgb_g c' - rgb_g t = 0.95 ^ Suc N * (rgb_g c - rgb_g t) \<and>
                    rgb_b c' - rgb_b t = 0.95 ^ Suc N * (rgb_b c - rgb_b t)"
    if i: "i < length (particles s)"
      and c: "currentRgb (particles s ! i) = Some c"
      and t: "targetRgb (particles s ! i) = Some t" for i c t
  proof -
    define c1 where "c1 = \<lparr>rgb_r = lerp (rgb_r c) (rgb_r t) lerpSpeed,
           rgb_g = lerp (rgb_g c) (rgb_g t) lerpSpeed,
           rgb_b = lerp (rgb_b c) (rgb_b t) lerpSpeed\<rparr>"
    have c1: "currentRgb (particles s1 ! i) = Some c1"
      using col1 i t ease_colour_Some [OF c, of t] by (simp add: c1_def)
    have t1: "targetRgb (particles s1 ! i) = Some t"
      using col1 i t by simp
    have "i < length (particles s1)" using i len1 by simp
    from col' [rule_format, OF this, of c1 t] c1 t1 obtain c' where
      c': "currentRgb (particles s' ! i) = Some c'" "targetRgb (particles s' ! i) = Some t"
      and r: "rgb_r c' - rgb_r t = 0.95 ^ N * (rgb_r c1 - rgb_r t)"
      and g: "rgb_g c' - rgb_g t = 0.95 ^ N * (rgb_g c1 - rgb_g t)"
      and b: "rgb_b c' - rgb_b t = 0.95 ^ N * (rgb_b c1 - rgb_b t)"
      by blast
    have gr: "rgb_r c1 - rgb_r t = 0.95 * (rgb_r c - rgb_r t)"
      and gg: "rgb_g c1 - rgb_g t = 0.95 * (rgb_g c - rgb_g t)"
      and gb: "rgb_b c1 - rgb_b t = 0.95 * (rgb_b c - rgb_b t)"
      by (simp_all add: c1_def lerp_gap)
    have "rgb_r c' - rgb_r t = 0.95 ^ Suc N * (rgb_r c - rgb_r t)"
      by (simp only: r gr) simp
    moreover have "rgb_g c' - rgb_g t = 0.95 ^ Suc N * (rgb_g c - rgb_g t)"
      by (simp only: g gg) simp
    moreover have "rgb_b c' - rgb_b t = 0.95 ^ Suc N * (rgb_b c - rgb_b t)"
      by (simp only: b gb) simp
    ultimately show ?thesis
      using c' by blast
  qed
  then have "\<forall>i<length (particles s). \<forall>c t.
             currentRgb (particles s ! i) = Some c \<and> targetRgb (particles s ! i) = Some t \<longrightarrow>
             (\<exists>c'. currentRgb (particles s' ! i) = Some c' \<and>
                    targetRgb (particles s' ! i) = Some t \<and>
                    rgb_r c' - rgb_r t = 0.95 ^ Suc N * (rgb_r c - rgb_r t) \<and>
                    rgb_g c' - rgb_g t = 0.95 ^ Suc N * (rgb_g c - rgb_g t) \<and>
                    rgb_b c' - rgb_b t = 0.95 ^ Suc N * (rgb_b c - rgb_b t))"
    by blast
  moreover have "length (particles s') = length (particles s)"
    using len' len1 by simp
  ultimately show ?case
    using run by blast
qed


lemma frames_colour_limit:
  assumes "\<forall>p\<in>set (particles s). targetRgb p \<noteq> None"
    and "i < length (particles s)"
    and "currentRgb (particles s ! i) = Some c" and "targetRgb (particles s ! i) = Some t"
  shows "(\<lambda>N. rgb_r (the (currentRgb (particles (state_of (frames N s)) ! i)))) \<longlonglongrightarrow> rgb_r t"
    and "(\<lambda>N. rgb_g (the (currentRgb (particles (state_of (frames N s)) ! i)))) \<longlonglongrightarrow> rgb_g t"
    and "(\<lambda>N. rgb_b (the (currentRgb (particles (state_of (frames N s)) ! i)))) \<longlonglongrightarrow> rgb_b t"
proof -
  have closed: "rgb_r (the (currentRgb (particles (state_of (frames N s)) ! i))) =
            rgb_r t + 0.95 ^ N * (rgb_r c - rgb_r t) \<and>
          rgb_g (the (currentRgb (particles (state_of (frames N s)) ! i))) =
            rgb_g t + 0.95 ^ N * (rgb_g c - rgb_g t) \<and>
          rgb_b (the (currentRgb (particles (state_of (frames N s)) ! i))) =
            rgb_b t + 0.95 ^ N * (rgb_b c - rgb_b t)" for N
  proof -
    from frames_colour_exact [OF assms(1), of N] obtain s' where
      f: "frames N s = Returned s'"
      and col: "\<forall>i<length (particles s). \<forall>c t.
             currentRgb (particles s ! i) = Some c \<and> targetRgb (particles s ! i) = Some t \<longrightarrow>
             (\<exists>c'. currentRgb (particles s' ! i) = Some c' \<and>
                    targetRgb (particles s' ! i) = Some t \<and>
                    rgb_r c' - rgb_r t = 0.95 ^ N * (rgb_r c - rgb_r t) \<and>
                    rgb_g c' - rgb_g t = 0.95 ^ N * (rgb_g c - rgb_g t) \<and>
                    rgb_b c' - rgb_b t = 0.95 ^ N * (rgb_b c - rgb_b t))"
      by blast
    from col [rule_format, OF assms(2), of c t] assms(3,4) obtain c' where
      c': "currentRgb (particles s' ! i) = Some c'"
      and r: "rgb_r c' - rgb_r t = 0.95 ^ N * (rgb_r c - rgb_r t)"
      and g: "rgb_g c' - rgb_g t = 0.95 ^ N * (rgb_g c - rgb_g t)"
      and b: "rgb_b c' - rgb_b t = 0.95 ^ N * (rgb_b c - rgb_b t)"
      by blast
    have "rgb_r c' = rgb_r t + 0.95 ^ N * (rgb_r c - rgb_r t)"
      "rgb_g c' = rgb_g t + 0.95 ^ N * (rgb_g c - rgb_g t)"
      "rgb_b c' = rgb_b t + 0.95 ^ N * (rgb_b c - rgb_b t)"
      using r g b by linarith+
    then show ?thesis
      by (simp add: f c')
  qed
  have pw: "(\<lambda>N. (0.95 :: real) ^ N) \<longlonglongrightarrow> 0"
    by (rule LIMSEQ_realpow_zero) simp_all
  have lim: "(\<lambda>N. a + 0.95 ^ N * d) \<longlonglongrightarrow> a" for a d :: real
  proof -
    have "(\<lambda>N. a + 0.95 ^ N * d) \<longlonglongrightarrow> a + 0 * d"
      by (intro tendsto_add tendsto_const tendsto_mult pw)
    then show ?thesis by simp
  qed
  show "(\<lambda>N. rgb_r (the (currentRgb (particles (state_of (frames N s)) ! i)))) \<longlonglongrightarrow> rgb_r t"
    using lim [of "rgb_r t" "rgb_r c - rgb_r t"] by (simp only: closed)
  show "(\<lambda>N. rgb_g (the (currentRgb (particles (state_of (frames N s)) ! i)))) \<longlonglongrightarrow> rgb_g t"
    using lim [of "rgb_g t" "rgb_g c - rgb_g t"] by (simp only: closed)
  show "(\<lambda>N. rgb_b (the (currentRgb (particles (state_of (frames N s)) ! i)))) \<longlonglongrightarrow> rgb_b t"
    using lim [of "rgb_b t" "rgb_b c - rgb_b t"] by (simp only: closed)
qed

lemma rgb_gap_nonzero:
  fixes c t c' :: rgb
  assumes "rgb_r c' - rgb_r t = 0.95 ^ N * (rgb_r c - rgb_r t)"
    and "rgb_g c' - rgb_g t = 0.95 ^ N * (rgb_g c - rgb_g t)"
    and "rgb_b c' - rgb_b t = 0.95 ^ N * (rgb_b c - rgb_b t)"
    and "c \<noteq> t"
  shows "c' \<noteq> t"
proof
  assume "c' = t"
  with assms(1-3) have "rgb_r c = rgb_r t" "rgb_g c = rgb_g t" "rgb_b c = rgb_b t"
    by simp_all
  then have "c = t" by simp
  with assms(4) show False by contradiction
qed

text \<open>
  Claim C5. \<^verbatim>\<open>setMood(x)\<close> with a registered key \<open>x\<close> returns normally, makes palette
  \<open>x\<close> the current one and sets its background; every particle's \<^verbatim>\<open>targetRgb\<close> becomes
  \<^verbatim>\<open>hexToRgb\<close> of a colour of palette \<open>x\<close> (never \<^verbatim>\<open>null\<close>), and nothing else of the
  particle changes: \<^verbatim>\<open>currentRgb\<close> is what it was. The frames that follow ease it
  towards the new target and never assign it: with the arithmetic read exactly, after
  \<open>N\<close> frames every channel is at \<open>target + 0.95 ^ N * (initial - target)\<close>, a current
  colour that differed from the new target still differs from it, and every channel
  tends to its target as \<open>N\<close> grows.
\<close>

theorem setMood_repicks_then_eases:
  assumes "map_of PALETTES x = Some pal" and "unit_interval (rand s)"
  shows "\<exists>s'. setMood x s = Returned s' \<and>
           currentPalette s' = Own pal \<and> background s' = bg pal \<and>
           length (particles s') = length (particles s) \<and>
           (\<forall>i<length (particles s).
              (\<exists>c\<in>set (colors pal).
                 particles s' ! i = (particles s ! i)\<lparr>targetRgb := hexToRgb c\<rparr> \<and>
                 targetRgb (particles s' ! i) = hexToRgb c) \<and>
              targetRgb (particles s' ! i) \<noteq> None \<and>
              currentRgb (particles s' ! i) = currentRgb (particles s ! i)) \<and>
           (\<forall>N. \<exists>s''. frames N s' = Returned s'' \<and>
              length (particles s'') = length (particles s) \<and>
              (\<forall>i<length (particles s). \<forall>c. currentRgb (particles s ! i) = Some c \<longrightarrow>
                 (\<exists>t c'. targetRgb (particles s' ! i) = Some t \<and>
                    targetRgb (particles s'' ! i) = Some t \<and>
                    currentRgb (particles s'' ! i) = Some c' \<and>
                    rgb_r c' - rgb_r t = 0.95 ^ N * (rgb_r c - rgb_r t) \<and>
                    rgb_g c' - rgb_g t = 0.95 ^ N * (rgb_g c - rgb_g t) \<and>
                    rgb_b c' - rgb_b t = 0.95 ^ N * (rgb_b c - rgb_b t) \<and>
                    (c \<noteq> t \<longrightarrow> c' \<noteq> t)))) \<and>
           (\<forall>i<length (particles s). \<forall>c t.
              currentRgb (particles s ! i) = Some c \<and> targetRgb (particles s' ! i) = Some t \<longrightarrow>
              (\<lambda>N. rgb_r (the (currentRgb (particles (state_of (frames N s')) ! i))))
                 \<longlonglongrightarrow> rgb_r t \<and>
              (\<lambda>N. rgb_g (the (currentRgb (particles (state_of (frames N s')) ! i))))
                 \<longlonglongrightarrow> rgb_g t \<and>
              (\<lambda>N. rgb_b (the (currentRgb (particles (state_of (frames N s')) ! i))))
                 \<longlonglongrightarrow> rgb_b t)"
proof -
  have get: "PALETTES_get x = Some (Own pal)"
    using assms(1) by (rule PALETTES_get_registered)
  have ne: "colors pal \<noteq> []"
    using registry_colors_length [OF assms(1)] by auto
  from repick_Own_unit [OF assms(2) ne, of "particles s"] obtain g' ps' where
    rp: "repick (Own pal) (rand s) (particles s) = (None, g', ps')"
    and len: "length ps' = length (particles s)"
    and tg: "\<forall>i<length (particles s). \<exists>c\<in>set (colors pal).
               ps' ! i = (particles s ! i)\<lparr>targetRgb := hexToRgb c\<rparr>"
    by blast
  define s' where "s' = s\<lparr>currentPalette := Own pal,
      buttons := add_active x (map (\<lambda>(m, a). (m, False)) (buttons s)),
      background := bg pal, particles := ps', rand := g',
      swatches := swatch_colours pal (length (swatches s))\<rparr>"
  have run: "setMood x s = Returned s'"
    by (simp add: setMood_def get rp s'_def Let_def)
  have ps: "particles s' = ps'"
    by (simp add: s'_def)
  have each: "(\<exists>c\<in>set (colors pal).
                 ps' ! i = (particles s ! i)\<lparr>targetRgb := hexToRgb c\<rparr> \<and>
                 targetRgb (ps' ! i) = hexToRgb c) \<and>
              targetRgb (ps' ! i) \<noteq> None \<and>
              currentRgb (ps' ! i) = currentRgb (particles s ! i)"
    if "i < length (particles s)" for i
  proof -
    from tg that obtain c where c: "c \<in> set (colors pal)"
      and eq: "ps' ! i = (particles s ! i)\<lparr>targetRgb := hexToRgb c\<rparr>"
      by blast
    have "hexToRgb c \<noteq> None"
      using assms(1) c by (intro registry_colour_parses [of x pal]) simp_all
    with c eq show ?thesis by auto
  qed
  have now: "\<forall>i<length (particles s).
              (\<exists>c\<in>set (colors pal).
                 particles s' ! i = (particles s ! i)\<lparr>targetRgb := hexToRgb c\<rparr> \<and>
                 targetRgb (particles s' ! i) = hexToRgb c) \<and>
              targetRgb (particles s' ! i) \<noteq> None \<and>
              currentRgb (particles s' ! i) = currentRgb (particles s ! i)"
    using each unfolding ps by blast
  have tgs: "\<forall>p\<in>set (particles s'). targetRgb p \<noteq> None"
  proof
    fix p assume "p \<in> set (particles s')"
    then obtain i where "i < length ps'" "p = ps' ! i"
      unfolding ps by (auto simp: in_set_conv_nth)
    with each [of i] len show "targetRgb p \<noteq> None" by simp
  qed
  have later: "\<exists>s''. frames N s' = Returned s'' \<and>
              length (particles s'') = length (particles s) \<and>
              (\<forall>i<length (particles s). \<forall>c. currentRgb (particles s ! i) = Some c \<longrightarrow>
                 (\<exists>t c'. targetRgb (particles s' ! i) = Some t \<and>
                    targetRgb (particles s'' ! i) = Some t \<and>
                    currentRgb (particles s'' ! i) = Some c' \<and>
                    rgb_r c' - rgb_r t = 0.95 ^ N * (rgb_r c - rgb_r t) \<and>
                    rgb_g c' - rgb_g t = 0.95 ^ N * (rgb_g c - rgb_g t) \<and>
                    rgb_b c' - rgb_b t = 0.95 ^ N * (rgb_b c - rgb_b t) \<and>
                    (c \<noteq> t \<longrightarrow> c' \<noteq> t)))" for N
  proof -
    from frames_colour_exact [OF tgs, of N] obtain s'' where
      f: "frames N s' = Returned s''"
      and len'': "length (particles s'') = length (particles s')"
      and col: "\<forall>i<length (particles s'). \<forall>c t.
             currentRgb (particles s' ! i) = Some c \<and> targetRgb (particles s' ! i) = Some t \<longrightarrow>
             (\<exists>c'. currentRgb (particles s'' ! i) = Some c' \<and>
                    targetRgb (particles s'' ! i) = Some t \<and>
                    rgb_r c' - rgb_r t = 0.95 ^ N * (rgb_r c - rgb_r t) \<and>
                    rgb_g c' - rgb_g t = 0.95 ^ N * (rgb_g c - rgb_g t) \<and>
                    rgb_b c' - rgb_b t = 0.95 ^ N * (rgb_b c - rgb_b t))"
      by blast
    have "\<exists>t c'. targetRgb (particles s' ! i) = Some t \<and>
                    targetRgb (particles s'' ! i) = Some t \<and>
                    currentRgb (particles s'' ! i) = Some c' \<and>
                    rgb_r c' - rgb_r t = 0.95 ^ N * (rgb_r c - rgb_r t) \<and>
                    rgb_g c' - rgb_g t = 0.95 ^ N * (rgb_g c - rgb_g t) \<and>
                    rgb_b c' - rgb_b t = 0.95 ^ N * (rgb_b c - rgb_b t) \<and>
                    (c \<noteq> t \<longrightarrow> c' \<noteq> t)"
      if i: "i < length (particles s)" and c: "currentRgb (particles s ! i) = Some c" for i c
    proof -
      from now i obtain t where t: "targetRgb (particles s' ! i) = Some t"
        by fastforce
      from now i c have c1: "currentRgb (particles s' ! i) = Some c"
        by simp
      have "i < length (particles s')"
        using i len ps by simp
      from col [rule_format, OF this, of c t] c1 t obtain c' where
        c': "currentRgb (particles s'' ! i) = Some c'" "targetRgb (particles s'' ! i) = Some t"
        and r: "rgb_r c' - rgb_r t = 0.95 ^ N * (rgb_r c - rgb_r t)"
        and g: "rgb_g c' - rgb_g t = 0.95 ^ N * (rgb_g c - rgb_g t)"
        and b: "rgb_b c' - rgb_b t = 0.95 ^ N * (rgb_b c - rgb_b t)"
        by blast
      have "c \<noteq> t \<longrightarrow> c' \<noteq> t"
        using rgb_gap_nonzero [OF r g b] by blast
      with t c' r g b show ?thesis by blast
    qed
    moreover have "length (particles s'') = length (particles s)"
      using len'' len ps by simp
    ultimately show ?thesis
      using f by blast
  qed
  have limit: "(\<lambda>N. rgb_r (the (currentRgb (particles (state_of (frames N s')) ! i))))
                 \<longlonglongrightarrow> rgb_r t \<and>
              (\<lambda>N. rgb_g (the (currentRgb (particles (state_of (frames N s')) ! i))))
                 \<longlonglongrightarrow> rgb_g t \<and>
              (\<lambda>N. rgb_b (the (currentRgb (particles (state_of (frames N s')) ! i))))
                 \<longlonglongrightarrow> rgb_b t"
    if i: "i < length (particles s)" and c: "currentRgb (particles s ! i) = Some c"
      and t: "targetRgb (particles s' ! i) = Some t" for i c t
  proof -
    from now i c have c1: "currentRgb (particles s' ! i) = Some c"
      by simp
    have i': "i < length (particles s')"
      using i len ps by simp
    from frames_colour_limit [OF tgs i' c1 t] show ?thesis
      by blast
  qed
  have len': "length (particles s') = length (particles s)"
    using len ps by simp
  have cp: "currentPalette s' = Own pal" and bg: "background s' = bg pal"
    by (simp_all add: s'_def)
  from later have later': "\<forall>N. \<exists>s''. frames N s' = Returned s'' \<and>
              length (particles s'') = length (particles s) \<and>
              (\<forall>i<length (particles s). \<forall>c. currentRgb (particles s ! i) = Some c \<longrightarrow>
                 (\<exists>t c'. targetRgb (particles s' ! i) = Some t \<and>
                    targetRgb (particles s'' ! i) = Some t \<and>
                    currentRgb (particles s'' ! i) = Some c' \<and>
                    rgb_r c' - rgb_r t = 0.95 ^ N * (rgb_r c - rgb_r t) \<and>
                    rgb_g c' - rgb_g t = 0.95 ^ N * (rgb_g c - rgb_g t) \<and>
                    rgb_b c' - rgb_b t = 0.95 ^ N * (rgb_b c - rgb_b t) \<and>
                    (c \<noteq> t \<longrightarrow> c' \<noteq> t)))"
    by (rule allI)
  from limit have limit': "\<forall>i<length (particles s). \<forall>c t.
              currentRgb (particles s ! i) = Some c \<and> targetRgb (particles s' ! i) = Some t \<longrightarrow>
              (\<lambda>N. rgb_r (the (currentRgb (particles (state_of (frames N s')) ! i))))
                 \<longlonglongrightarrow> rgb_r t \<and>
              (\<lambda>N. rgb_g (the (currentRgb (particles (state_of (frames N s')) ! i))))
                 \<longlonglongrightarrow> rgb_g t \<and>
              (\<lambda>N. rgb_b (the (currentRgb (particles (state_of (frames N s')) ! i))))
                 \<longlonglongrightarrow> rgb_b t"
    by blast
  show ?thesis
    apply (rule exI [of _ s'])
    apply (intro conjI)
          apply (rule run)
         apply (rule cp)
        apply (rule bg)
       apply (rule len')
      apply (rule now)
     apply (rule later')
    apply (rule limit')
    done
qed

text \<open>The example state switched to \<^verbatim>\<open>serenity\<close>; the random number \<open>1 / 2\<close> picks
  the colour at index 2, \<^verbatim>\<open>#80DEEA\<close>, which is \<open>(128, 222, 234)\<close>. Two frames later the
  first particle, black at the switch, is at \<open>(12.48, 21.645, 22.815)\<close>.\<close>

theorem setMood_repicks_then_eases_witness:
  "map_of PALETTES ''serenity'' =
     Some \<lparr>name = ''Serenity'',
           colors = [''#E0F7FA'', ''#B2EBF2'', ''#80DEEA'', ''#4DD0E1'', ''#26C6DA''],
           bg = ''#001a1a''\<rparr> \<and>
   unit_interval (rand example_sim) \<and>
   (\<exists>s'. setMood ''serenity'' example_sim = Returned s' \<and>
      background s' = ''#001a1a'' \<and>
      map targetRgb (particles s') =
        [Some \<lparr>rgb_r = 128, rgb_g = 222, rgb_b = 234\<rparr>,
         Some \<lparr>rgb_r = 128, rgb_g = 222, rgb_b = 234\<rparr>] \<and>
      currentRgb (particles s' ! 0) = Some \<lparr>rgb_r = 0, rgb_g = 0, rgb_b = 0\<rparr> \<and>
      currentRgb (particles s' ! 1) = Some \<lparr>rgb_r = 0, rgb_g = 0, rgb_b = 0\<rparr> \<and>
      (\<exists>s'' c'. frames 2 s' = Returned s'' \<and>
         targetRgb (particles s'' ! 0) = Some \<lparr>rgb_r = 128, rgb_g = 222, rgb_b = 234\<rparr> \<and>
         currentRgb (particles s'' ! 0) = Some c' \<and>
         rgb_r c' = 312 / 25 \<and> rgb_g c' = 4329 / 200 \<and> rgb_b c' = 4563 / 200 \<and>
         c' \<noteq> \<lparr>rgb_r = 128, rgb_g = 222, rgb_b = 234\<rparr>))"
proof -
  from setMood_repicks_then_eases [OF serenity_registered example_unit_interval]
  obtain s' where
    run: "setMood ''serenity'' example_sim = Returned s'"
    and b: "background s' = ''#001a1a''"
    and cur: "\<forall>i<length (particles example_sim).
        currentRgb (particles s' ! i) = currentRgb (particles example_sim ! i)"
    and later: "\<forall>N. \<exists>s''. frames N s' = Returned s'' \<and>
              length (particles s'') = length (particles example_sim) \<and>
              (\<forall>i<length (particles example_sim). \<forall>c.
                 currentRgb (particles example_sim ! i) = Some c \<longrightarrow>
                 (\<exists>t c'. targetRgb (particles s' ! i) = Some t \<and>
                    targetRgb (particles s'' ! i) = Some t \<and>
                    currentRgb (particles s'' ! i) = Some c' \<and>
                    rgb_r c' - rgb_r t = 0.95 ^ N * (rgb_r c - rgb_r t) \<and>
                    rgb_g c' - rgb_g t = 0.95 ^ N * (rgb_g c - rgb_g t) \<and>
                    rgb_b c' - rgb_b t = 0.95 ^ N * (rgb_b c - rgb_b t) \<and>
                    (c \<noteq> t \<longrightarrow> c' \<noteq> t)))"
    by auto
  have c0: "currentRgb (particles s' ! 0) = Some \<lparr>rgb_r = 0, rgb_g = 0, rgb_b = 0\<rparr>"
    and c1: "currentRgb (particles s' ! 1) = Some \<lparr>rgb_r = 0, rgb_g = 0, rgb_b = 0\<rparr>"
    using cur by (simp_all add: example_sim_def example_particle_def)
  have "map targetRgb (particles (state_of (setMood ''serenity'' example_sim))) =
        [Some \<lparr>rgb_r = 128, rgb_g = 222, rgb_b = 234\<rparr>,
         Some \<lparr>rgb_r = 128, rgb_g = 222, rgb_b = 234\<rparr>]"
    by (simp add: setMood_def PALETTES_get_def PALETTES_def example_sim_def Let_def
        pickColor_def Math_random_def hexToRgb_def expand_shorthand_def strip_hash_def
        is_hex_def parseInt16_def digit_value_def)
  then have tgs: "map targetRgb (particles s') =
        [Some \<lparr>rgb_r = 128, rgb_g = 222, rgb_b = 234\<rparr>,
         Some \<lparr>rgb_r = 128, rgb_g = 222, rgb_b = 234\<rparr>]"
    by (simp add: run)
  then have t0: "targetRgb (particles s' ! 0) = Some \<lparr>rgb_r = 128, rgb_g = 222, rgb_b = 234\<rparr>"
    by (cases "particles s'") simp_all
  from later [rule_format, of 2] obtain s'' where
    f: "frames 2 s' = Returned s''"
    and col: "\<forall>i<length (particles example_sim). \<forall>c.
                 currentRgb (particles example_sim ! i) = Some c \<longrightarrow>
                 (\<exists>t c'. targetRgb (particles s' ! i) = Some t \<and>
                    targetRgb (particles s'' ! i) = Some t \<and>
                    currentRgb (particles s'' ! i) = Some c' \<and>
                    rgb_r c' - rgb_r t = 0.95 ^ 2 * (rgb_r c - rgb_r t) \<and>
                    rgb_g c' - rgb_g t = 0.95 ^ 2 * (rgb_g c - rgb_g t) \<and>
                    rgb_b c' - rgb_b t = 0.95 ^ 2 * (rgb_b c - rgb_b t) \<and>
                    (c \<noteq> t \<longrightarrow> c' \<noteq> t))"
    by blast
  have i0: "0 < length (particles example_sim)"
    by (simp add: example_sim_def)
  have e0: "currentRgb (particles example_sim ! 0) = Some \<lparr>rgb_r = 0, rgb_g = 0, rgb_b = 0\<rparr>"
    by (simp add: example_sim_def example_particle_def)
  from col [rule_format, OF i0 e0] t0 obtain c' where
    t2: "targetRgb (particles s'' ! 0) = Some \<lparr>rgb_r = 128, rgb_g = 222, rgb_b = 234\<rparr>"
    and c2: "currentRgb (particles s'' ! 0) = Some c'"
    and r: "rgb_r c' - 128 = 0.95 ^ 2 * (0 - 128)"
    and g: "rgb_g c' - 222 = 0.95 ^ 2 * (0 - 222)"
    and bl: "rgb_b c' - 234 = 0.95 ^ 2 * (0 - 234)"
    and ne: "c' \<noteq> \<lparr>rgb_r = 128, rgb_g = 222, rgb_b = 234\<rparr>"
    by auto
  have "rgb_r c' = 312 / 25" "rgb_g c' = 4329 / 200" "rgb_b c' = 4563 / 200"
    using r g bl by (simp_all add: power2_eq_square)
  with f t2 c2 ne have "\<exists>s'' c'. frames 2 s' = Returned s'' \<and>
         targetRgb (particles s'' ! 0) = Some \<lparr>rgb_r = 128, rgb_g = 222, rgb_b = 234\<rparr> \<and>
         currentRgb (particles s'' ! 0) = Some c' \<and>
         rgb_r c' = 312 / 25 \<and> rgb_g c' = 4329 / 200 \<and> rgb_b c' = 4563 / 200 \<and>
         c' \<noteq> \<lparr>rgb_r = 128, rgb_g = 222, rgb_b = 234\<rparr>"
    by blast
  with run b tgs c0 c1 serenity_registered example_unit_interval show ?thesis
    by simp
qed

text \<open>Any key that \<^verbatim>\<open>Object.prototype\<close> holds passes the guard; with a particle in the
  pool, \<^verbatim>\<open>setMood\<close> then throws after it has replaced the current palette.\<close>

lemma PALETTES_get_inherited:
  assumes "moodKey \<in> set Object_prototype"
  shows "PALETTES_get moodKey = Some Inherited"
proof -
  have "set Object_prototype \<inter> fst ` set PALETTES = {}"
    by (simp add: Object_prototype_def PALETTES_def)
  with assms have "moodKey \<notin> fst ` set PALETTES" by blast
  then have "map_of PALETTES moodKey = None"
    by (simp add: map_of_eq_None_iff)
  with assms show ?thesis
    by (simp add: PALETTES_get_def)
qed

lemma setMood_inherited:
  assumes "moodKey \<in> set Object_prototype" and "particles s \<noteq> []"
  shows "\<exists>s'. setMood moodKey s = Threw TypeError s' \<and> currentPalette s' = Inherited \<and>
           particles s' = particles s \<and> background s' = background s"
proof -
  from assms(2) obtain p ps where ps: "particles s = p # ps"
    by (cases "particles s") auto
  show ?thesis
    by (simp add: setMood_def PALETTES_get_inherited [OF assms(1)] Let_def ps pickColor_Inherited)
qed

text \<open>
  Claim C4 fails on a key that the registry does not hold and \<^verbatim>\<open>Object.prototype\<close>
  does: \<^verbatim>\<open>setMood("constructor")\<close> on the example state passes the guard, replaces
  the current palette, clears the active button and throws a \<^verbatim>\<open>TypeError\<close> at the
  first particle.
\<close>

theorem setMood_inherited_key_throws:
  "map_of PALETTES ''constructor'' = None \<and>
   PALETTES_get ''constructor'' = Some Inherited \<and>
   currentPalette example_sim = Own (snd (hd PALETTES)) \<and>
   setMood ''constructor'' example_sim =
     Threw TypeError
       (example_sim\<lparr>currentPalette := Inherited,
          buttons := [(''joy'', False), (''serenity'', False), (''energy'', False),
                      (''melancholy'', False), (''mystery'', False)]\<rparr>)"
  by (simp add: setMood_def PALETTES_get_def PALETTES_def Object_prototype_def example_sim_def
      Let_def pickColor_def Math_random_def)

text \<open>The spec's example: after \<^verbatim>\<open>setMood("joy")\<close>, \<^verbatim>\<open>setMood("nonexistent")\<close> changes
  nothing.\<close>

lemma setMood_joy_then_nonexistent:
  "PALETTES_get ''nonexistent'' = None \<and>
   setMood ''nonexistent'' (state_of (setMood ''joy'' s)) = Returned (state_of (setMood ''joy'' s))"
proof -
  have "PALETTES_get ''nonexistent'' = None"
    by (simp add: PALETTES_get_def PALETTES_def Object_prototype_def)
  then show ?thesis by (simp add: setMood_unknown)
qed

subsection \<open>Targets are never null\<close>

lemma Particle_reset_target:
  assumes "registry_entry cp"
  shows "case Particle_reset W H cp g p of
           (Returned p', g') \<Rightarrow> targetRgb p' \<noteq> None
         | (Threw e p', g') \<Rightarrow> targetRgb p' = targetRgb p"
proof -
  define g5 where "g5 = (\<lambda>n. g (Suc (Suc (Suc (Suc (Suc n))))))"
  obtain r g6 where pick: "pickColor cp g5 = (r, g6)"
    by (cases "pickColor cp g5")
  show ?thesis
  proof (cases r)
    case (Inl e)
    with pick show ?thesis
      by (simp add: Particle_reset_def Math_random_def Let_def g5_def)
  next
    case (Inr hex)
    show ?thesis
    proof (cases hex)
      case None
      with pick Inr show ?thesis
        by (simp add: Particle_reset_def Math_random_def Let_def g5_def)
    next
      case (Some c)
      with pick Inr have "pickColor cp g5 = (Inr (Some c), g6)" by simp
      then have "hexToRgb c \<noteq> None"
        using assms by (rule pickColor_registry_parses)
      with pick Inr Some show ?thesis
        by (simp add: Particle_reset_def Math_random_def Let_def g5_def)
    qed
  qed
qed

text \<open>
  Claim C10. The registry holds the five palettes; each of their colours and
  backgrounds is \<^verbatim>\<open>#\<close> followed by six hex digits, so \<^verbatim>\<open>hexToRgb\<close> of it is not
  \<^verbatim>\<open>null\<close>; a colour that \<^verbatim>\<open>pickColor\<close> returns is one of them. \<^verbatim>\<open>reset()\<close> under any
  value \<^verbatim>\<open>currentPalette\<close> can hold either assigns a non-\<^verbatim>\<open>null\<close> target or throws
  without assigning one, and \<^verbatim>\<open>setMood\<close> with any key keeps all targets non-\<^verbatim>\<open>null\<close>.
\<close>

theorem palette_colours_never_null:
  "map fst PALETTES = [''joy'', ''serenity'', ''energy'', ''melancholy'', ''mystery''] \<and>
   (map_of PALETTES key = Some pal \<and> c \<in> set (bg pal # colors pal) \<longrightarrow>
      length c = 7 \<and> hd c = CHR ''#'' \<and> list_all is_hex (tl c) \<and> hexToRgb c \<noteq> None) \<and>
   (map_of PALETTES key = Some pal \<and> pickColor (Own pal) g = (Inr (Some c), g') \<longrightarrow>
      c \<in> set (colors pal) \<and> hexToRgb c \<noteq> None) \<and>
   (PALETTES_get key = Some cp \<longrightarrow>
      (case Particle_reset W H cp g p of
         (Returned p', g') \<Rightarrow> targetRgb p' \<noteq> None
       | (Threw e p', g') \<Rightarrow> targetRgb p' = targetRgb p)) \<and>
   ((\<forall>p\<in>set (particles s). targetRgb p \<noteq> None) \<longrightarrow>
      (\<forall>p\<in>set (particles (state_of (setMood key s))). targetRgb p \<noteq> None))"
proof (intro conjI impI)
  show "map fst PALETTES = [''joy'', ''serenity'', ''energy'', ''melancholy'', ''mystery'']"
    by (rule PALETTES_keys)
next
  assume h: "map_of PALETTES key = Some pal \<and> c \<in> set (bg pal # colors pal)"
  then show "length c = 7" "hd c = CHR ''#''" "list_all is_hex (tl c)"
    using registry_colour [of key pal c] by simp_all
  from h show "hexToRgb c \<noteq> None"
    using registry_colour_parses [of key pal c] by simp
next
  assume h: "map_of PALETTES key = Some pal \<and> pickColor (Own pal) g = (Inr (Some c), g')"
  with pickColor_Own_cases [of pal g] show c: "c \<in> set (colors pal)"
    by auto
  with h show "hexToRgb c \<noteq> None"
    using registry_colour_parses [of key pal c] by simp
next
  assume "PALETTES_get key = Some cp"
  then have "registry_entry cp" by (rule PALETTES_get_registry_entry)
  then show "case Particle_reset W H cp g p of
         (Returned p', g') \<Rightarrow> targetRgb p' \<noteq> None
       | (Threw e p', g') \<Rightarrow> targetRgb p' = targetRgb p"
    by (rule Particle_reset_target)
next
  assume "\<forall>p\<in>set (particles s). targetRgb p \<noteq> None"
  then show "\<forall>p\<in>set (particles (state_of (setMood key s))). targetRgb p \<noteq> None"
    by (rule setMood_targets_not_null)
qed

text \<open>The palette \<^verbatim>\<open>serenity\<close> and the example state.\<close>

theorem palette_colours_never_null_witness:
  "map_of PALETTES ''serenity'' =
     Some \<lparr>name = ''Serenity'',
           colors = [''#E0F7FA'', ''#B2EBF2'', ''#80DEEA'', ''#4DD0E1'', ''#26C6DA''],
           bg = ''#001a1a''\<rparr> \<and>
   hexToRgb ''#001a1a'' \<noteq> None \<and>
   hexToRgb ''#26C6DA'' \<noteq> None \<and>
   PALETTES_get ''serenity'' =
     Some (Own \<lparr>name = ''Serenity'',
           colors = [''#E0F7FA'', ''#B2EBF2'', ''#80DEEA'', ''#4DD0E1'', ''#26C6DA''],
           bg = ''#001a1a''\<rparr>) \<and>
   targetRgb example_particle \<noteq> None \<and>
   targetRgb (state_of (fst (Particle_reset 800 600
      (Own \<lparr>name = ''Serenity'',
           colors = [''#E0F7FA'', ''#B2EBF2'', ''#80DEEA'', ''#4DD0E1'', ''#26C6DA''],
           bg = ''#001a1a''\<rparr>) (\<lambda>n. 1 / 2) example_particle))) \<noteq> None \<and>
   list_all (\<lambda>p. targetRgb p \<noteq> None) (particles (state_of (setMood ''serenity'' example_sim)))"
proof -
  let ?pal = "\<lparr>name = ''Serenity'',
           colors = [''#E0F7FA'', ''#B2EBF2'', ''#80DEEA'', ''#4DD0E1'', ''#26C6DA''],
           bg = ''#001a1a''\<rparr>"
  have t: "targetRgb example_particle \<noteq> None"
    by (simp add: example_particle_def)
  have h: "\<forall>p\<in>set (particles example_sim). targetRgb p \<noteq> None"
    by (simp add: example_sim_def example_particle_def)
  have a: "hexToRgb ''#001a1a'' \<noteq> None"
    using palette_colours_never_null [where key = "''serenity''" and pal = ?pal and c = "''#001a1a''"]
      serenity_registered by simp
  have b: "hexToRgb ''#26C6DA'' \<noteq> None"
    using palette_colours_never_null [where key = "''serenity''" and pal = ?pal and c = "''#26C6DA''"]
      serenity_registered by simp
  have get: "PALETTES_get ''serenity'' = Some (Own ?pal)"
    by (simp add: PALETTES_get_def PALETTES_def)
  have "case Particle_reset 800 600 (Own ?pal) (\<lambda>n. 1 / 2) example_particle of
          (Returned p', g') \<Rightarrow> targetRgb p' \<noteq> None
        | (Threw e p', g') \<Rightarrow> targetRgb p' = targetRgb example_particle"
    by (rule palette_colours_never_null [where key = "''serenity''" and cp = "Own ?pal"
        and W = 800 and H = 600 and g = "\<lambda>n. 1 / 2" and p = example_particle,
        THEN conjunct2, THEN conjunct2, THEN conjunct2, THEN conjunct1, THEN mp, OF get])
  then have c: "targetRgb (state_of (fst (Particle_reset 800 600 (Own ?pal) (\<lambda>n. 1 / 2)
      example_particle))) \<noteq> None"
    using t by (cases "Particle_reset 800 600 (Own ?pal) (\<lambda>n. 1 / 2) example_particle";
        cases "fst (Particle_reset 800 600 (Own ?pal) (\<lambda>n. 1 / 2) example_particle)") simp_all
  have d: "list_all (\<lambda>p. targetRgb p \<noteq> None) (particles (state_of (setMood ''serenity'' example_sim)))"
    using palette_colours_never_null [where key = "''serenity''" and s = example_sim] h
    by (simp add: list_all_iff)
  from serenity_registered a b get t c d show ?thesis by simp
qed

subsection \<open>Particle pool\<close>

text \<open>What \<^verbatim>\<open>initParticles()\<close> establishes under a registered palette: 150
  particles whose targets are not \<^verbatim>\<open>null\<close> and whose radii lie in \<open>[30, 80)\<close> and equal
  their base radii.\<close>

lemma Particle_reset_ok:
  assumes "unit_interval g" and "map_of PALETTES key = Some pal"
  shows "\<exists>p' g'. Particle_reset W H (Own pal) g p = (Returned p', g') \<and> unit_interval g' \<and>
           targetRgb p' \<noteq> None \<and> currentRgb p' = targetRgb p' \<and>
           30 \<le> radius p' \<and> radius p' < 80 \<and> baseRadius p' = radius p'"
proof -
  define g5 where "g5 = (\<lambda>n. g (Suc (Suc (Suc (Suc (Suc n))))))"
  have u5: "unit_interval g5"
    using assms(1) by (simp add: unit_interval_def g5_def)
  then have "0 \<le> g5 0" "g5 0 < 1"
    by (simp_all add: unit_interval_def)
  moreover have "colors pal \<noteq> []"
    using registry_colors_length [OF assms(2)] by auto
  ultimately obtain c where c: "c \<in> set (colors pal)"
    and pick: "pickColor (Own pal) g5 = (Inr (Some c), \<lambda>n. g5 (Suc n))"
    using pickColor_Own_unit [of g5 pal] by blast
  have parse: "hexToRgb c \<noteq> None"
    using assms(2) c by (intro registry_colour_parses [of key pal]) simp_all
  have r: "0 \<le> g 4" "g 4 < 1"
    using assms(1) by (simp_all add: unit_interval_def)
  have four: "Suc (Suc (Suc (Suc 0))) = 4" by simp
  have u8: "unit_interval (\<lambda>n. g5 (Suc (Suc (Suc n))))"
    using u5 by (simp add: unit_interval_def)
  show ?thesis
    using pick parse r u8
    by (simp add: Particle_reset_def Math_random_def Let_def g5_def four)
qed

lemma push_particles_ok:
  assumes "map_of PALETTES key = Some pal" and "unit_interval g"
    and "\<forall>p\<in>set ps. targetRgb p \<noteq> None \<and> 30 \<le> radius p \<and> radius p < 80 \<and> baseRadius p = radius p"
  shows "\<exists>ps' g'. push_particles n W H (Own pal) g ps = (None, ps', g') \<and> unit_interval g' \<and>
           length ps' = length ps + n \<and>
           (\<forall>p\<in>set ps'. targetRgb p \<noteq> None \<and> 30 \<le> radius p \<and> radius p < 80 \<and>
              baseRadius p = radius p)"
  using assms(2,3)
proof (induction n arbitrary: g ps)
  case 0
  then show ?case by simp
next
  case (Suc n)
  from Particle_reset_ok [OF Suc.prems(1) assms(1), of W H new_object]
  obtain p' g' where
    r: "Particle_reset W H (Own pal) g new_object = (Returned p', g')"
    and u: "unit_interval g'"
    and ok: "targetRgb p' \<noteq> None" "30 \<le> radius p'" "radius p' < 80" "baseRadius p' = radius p'"
    by blast
  have "\<forall>p\<in>set (ps @ [p']). targetRgb p \<noteq> None \<and> 30 \<le> radius p \<and> radius p < 80 \<and>
      baseRadius p = radius p"
    using Suc.prems(2) ok by simp
  from Suc.IH [OF u this] obtain ps' g'' where
    "push_particles n W H (Own pal) g' (ps @ [p']) = (None, ps', g'')"
    "unit_interval g''" "length ps' = length (ps @ [p']) + n"
    "\<forall>p\<in>set ps'. targetRgb p \<noteq> None \<and> 30 \<le> radius p \<and> radius p < 80 \<and>
              baseRadius p = radius p"
    by blast
  then show ?case
    by (simp add: new_Particle_def r)
qed

lemma initParticles_ok:
  assumes "map_of PALETTES key = Some pal" and "currentPalette s = Own pal"
    and "unit_interval (rand s)"
  shows "\<exists>s'. initParticles s = Returned s' \<and> length (particles s') = PARTICLE_COUNT \<and>
           unit_interval (rand s') \<and>
           (\<forall>p\<in>set (particles s'). targetRgb p \<noteq> None \<and> 30 \<le> radius p \<and> radius p < 80 \<and>
              baseRadius p = radius p)"
proof -
  from push_particles_ok [OF assms(1,3), of "[]" PARTICLE_COUNT "width s" "height s"]
  obtain ps' g' where
    "push_particles PARTICLE_COUNT (width s) (height s) (Own pal) (rand s) [] = (None, ps', g')"
    "unit_interval g'" "length ps' = PARTICLE_COUNT"
    "\<forall>p\<in>set ps'. targetRgb p \<noteq> None \<and> 30 \<le> radius p \<and> radius p < 80 \<and>
              baseRadius p = radius p"
    by auto
  then show ?thesis
    by (simp add: initParticles_def assms(2))
qed

end
